theory Spec2Isabelle
  imports Main "HOL-Library.AList"
begin

section \<open>Go strings and the library functions the proxy uses\<close>

text \<open>
  A Go string is a sequence of bytes; \<^typ>\<open>string\<close> (a list of 8-bit \<^typ>\<open>char\<close>)
  is the same thing. The functions below are the ones of packages \<^verbatim>\<open>strings\<close> and
  \<^verbatim>\<open>encoding/hex\<close> that the modelled code calls.
\<close>

definition HasPrefix :: "string \<Rightarrow> string \<Rightarrow> bool" where
  "HasPrefix s p = (take (length p) s = p)"

definition TrimPrefix :: "string \<Rightarrow> string \<Rightarrow> string" where
  "TrimPrefix s p = (if HasPrefix s p then drop (length p) s else s)"

text \<open>\<^verbatim>\<open>strings.Index(s, sep)\<close>: the offset of the first occurrence of \<open>sep\<close>.\<close>

fun Index :: "string \<Rightarrow> string \<Rightarrow> nat option" where
  "Index [] sep = (if sep = [] then Some 0 else None)"
| "Index (c # s) sep =
     (if HasPrefix (c # s) sep then Some 0 else map_option Suc (Index s sep))"

text \<open>
  \<^verbatim>\<open>strings.SplitN(s, sep, 2)\<close> for a non-empty separator: at most two pieces, cut at
  the first occurrence of the separator.
\<close>

definition SplitN2 :: "string \<Rightarrow> string \<Rightarrow> string list" where
  "SplitN2 s sep =
     (case Index s sep of
        None \<Rightarrow> [s]
      | Some i \<Rightarrow> [take i s, drop (i + length sep) s])"

subsection \<open>encoding/hex\<close>

definition hextable :: string where
  "hextable = ''0123456789abcdef''"

fun EncodeToString :: "string \<Rightarrow> string" where
  "EncodeToString [] = []"
| "EncodeToString (c # cs) =
     hextable ! (of_char c div 16) # hextable ! (of_char c mod 16) # EncodeToString cs"

definition fromHexChar :: "char \<Rightarrow> nat option" where
  "fromHexChar c =
     (let n = (of_char c :: nat) in
      if 48 \<le> n \<and> n \<le> 57 then Some (n - 48)
      else if 97 \<le> n \<and> n \<le> 102 then Some (n - 97 + 10)
      else if 65 \<le> n \<and> n \<le> 70 then Some (n - 65 + 10)
      else None)"

text \<open>
  \<^verbatim>\<open>hex.DecodeString\<close>: an invalid byte or an odd length is an error (\<open>None\<close>); the
  caller only tests \<^verbatim>\<open>err != nil\<close>.
\<close>

fun DecodeString :: "string \<Rightarrow> string option" where
  "DecodeString [] = Some []"
| "DecodeString [p] = None"
| "DecodeString (p # q # r) =
     (case fromHexChar p of
        None \<Rightarrow> None
      | Some a \<Rightarrow>
          (case fromHexChar q of
             None \<Rightarrow> None
           | Some b \<Rightarrow> map_option ((#) (char_of (a * 16 + b))) (DecodeString r)))"

subsection \<open>strings.TrimSpace, strings.Split, decimal formatting\<close>

text \<open>
  \<^verbatim>\<open>strings.TrimSpace\<close> removes leading and trailing Unicode white space. On the bytes
  of a UTF-8 string these are six one-byte characters, U+0085 and U+00A0 as two bytes,
  and U+1680, U+2000 to U+200A, U+2028, U+2029, U+202F, U+205F and U+3000 as three bytes.
\<close>

definition space1 :: "char \<Rightarrow> bool" where
  "space1 a = (let n = (of_char a :: nat) in (9 \<le> n \<and> n \<le> 13) \<or> n = 32)"

definition space2 :: "char \<Rightarrow> char \<Rightarrow> bool" where
  "space2 a b = ((of_char a :: nat) = 0xC2 \<and> ((of_char b :: nat) = 0x85 \<or> (of_char b :: nat) = 0xA0))"

definition space3 :: "char \<Rightarrow> char \<Rightarrow> char \<Rightarrow> bool" where
  "space3 a b c =
     (let x = (of_char a :: nat); y = (of_char b :: nat); z = (of_char c :: nat) in
      (x = 0xE1 \<and> y = 0x9A \<and> z = 0x80) \<or>
      (x = 0xE2 \<and> y = 0x80 \<and> ((0x80 \<le> z \<and> z \<le> 0x8A) \<or> z = 0xA8 \<or> z = 0xA9 \<or> z = 0xAF)) \<or>
      (x = 0xE2 \<and> y = 0x81 \<and> z = 0x9F) \<or>
      (x = 0xE3 \<and> y = 0x80 \<and> z = 0x80))"

text \<open>
  Trimming at the front; with \<open>rv\<close> set the argument is a reversed string, whose
  multi-byte characters come last byte first.
\<close>

fun trimFront :: "bool \<Rightarrow> string \<Rightarrow> string" where
  "trimFront rv [] = []"
| "trimFront rv [a] = (if space1 a then [] else [a])"
| "trimFront rv [a, b] =
     (if space1 a then trimFront rv [b]
      else if (if rv then space2 b a else space2 a b) then []
      else [a, b])"
| "trimFront rv (a # b # c # s) =
     (if space1 a then trimFront rv (b # c # s)
      else if (if rv then space2 b a else space2 a b) then trimFront rv (c # s)
      else if (if rv then space3 c b a else space3 a b c) then trimFront rv s
      else a # b # c # s)"

definition TrimSpace :: "string \<Rightarrow> string" where
  "TrimSpace s = rev (trimFront True (rev (trimFront False s)))"

text \<open>\<^verbatim>\<open>strings.Split(s, sep)\<close> for a separator of one byte.\<close>

fun Split :: "string \<Rightarrow> char \<Rightarrow> string list" where
  "Split [] sep = [[]]"
| "Split (x # xs) sep =
     (if x = sep then [] # Split xs sep
      else (case Split xs sep of [] \<Rightarrow> [[x]] | y # ys \<Rightarrow> (x # y) # ys))"

text \<open>The verb \<^verbatim>\<open>%d\<close> of package \<^verbatim>\<open>fmt\<close>.\<close>

fun digits :: "nat \<Rightarrow> string" where
  "digits n =
     (if n < 10 then [char_of (48 + n)] else digits (n div 10) @ [char_of (48 + n mod 10)])"

definition itoa :: "int \<Rightarrow> string" where
  "itoa i = (if i < 0 then ''-'' @ digits (nat (- i)) else digits (nat i))"

section \<open>The JSON-RPC envelope\<close>

text \<open>
  \<^verbatim>\<open>rpcErr\<close> and \<^verbatim>\<open>rpcResp\<close> of package \<^verbatim>\<open>server\<close>; \<^verbatim>\<open>mcpError\<close> and
  \<^verbatim>\<open>mcpResponse\<close> of package \<^verbatim>\<open>manager\<close> have the same fields and the same JSON
  keys, and share the records. A \<^verbatim>\<open>json.RawMessage\<close> is a byte slice, nil when the key
  is absent; the error is a pointer, nil when absent.
\<close>

record rpcErr =
  Code :: int
  Message :: string

record rpcResp =
  JSONRPC :: string
  ID :: int
  Result :: "string option"
  Error :: "rpcErr option"

type_synonym mcpResponse = rpcResp

definition zeroResp :: rpcResp where
  "zeroResp = \<lparr>JSONRPC = '''', ID = 0, Result = None, Error = None\<rparr>"

record mcpServerInfoResp =
  Name :: string
  Version :: string

record mcpInitResult =
  ProtocolVersion :: string
  ServerInfo :: mcpServerInfoResp

text \<open>\<^verbatim>\<open>MCPTool\<close> of package \<^verbatim>\<open>manager\<close>; the input schema is raw JSON.\<close>

record MCPTool =
  Name :: string
  Description :: string
  InputSchema :: string

text \<open>
  What the code takes from the Go library and from the JSON text it is given.
  \<^item> \<open>unmarshal_resp data v\<close> is \<^verbatim>\<open>json.Unmarshal(data, &v)\<close> for a response \<open>v\<close>: the
    error, if any, and \<open>v\<close> afterwards (the decoder writes into the value it is given).
  \<^item> \<open>unmarshal_batch data\<close> is the same into a nil slice of responses.
  \<^item> \<open>unmarshal_init\<close> and \<open>unmarshal_tools\<close> decode the results of \<^verbatim>\<open>initialize\<close> and
    \<^verbatim>\<open>tools/list\<close> into fresh values of \<^verbatim>\<open>mcpInitResult\<close> and \<^verbatim>\<open>mcpToolsResult\<close>.
  \<^item> \<open>Quote\<close> is the verb \<^verbatim>\<open>%q\<close> on a string.
  \<^item> \<open>EqualFold\<close> is \<^verbatim>\<open>strings.EqualFold\<close>, equality under Unicode case folding.
  Every statement below holds for all such functions.
\<close>

record lib =
  unmarshal_resp :: "string \<Rightarrow> rpcResp \<Rightarrow> string option \<times> rpcResp"
  unmarshal_batch :: "string \<Rightarrow> string option \<times> rpcResp list"
  unmarshal_init :: "string \<Rightarrow> mcpInitResult option"
  unmarshal_tools :: "string \<Rightarrow> string + MCPTool list"
  Quote :: "string \<Rightarrow> string"
  EqualFold :: "string \<Rightarrow> string \<Rightarrow> bool"

section \<open>The response decoders\<close>

subsection \<open>The proxy's decoder\<close>

text \<open>
  The closure \<^verbatim>\<open>add\<close> of \<^verbatim>\<open>decodeProxyResponse\<close>: a response with no version, no
  result and no error is not kept.
\<close>

definition add :: "rpcResp list \<Rightarrow> rpcResp \<Rightarrow> rpcResp list" where
  "add candidates v =
     (if JSONRPC v = [] \<and> Result v = None \<and> rpcResp.Error v = None then candidates
      else candidates @ [v])"

text \<open>\<^verbatim>\<open>for _, v := range arr { add(v) }\<close>\<close>

fun add_all :: "rpcResp list \<Rightarrow> rpcResp list \<Rightarrow> rpcResp list" where
  "add_all candidates [] = candidates"
| "add_all candidates (v # vs) = add_all (add candidates v) vs"

text \<open>The loop over the lines of the body.\<close>

fun sse_lines :: "lib \<Rightarrow> rpcResp list \<Rightarrow> string list \<Rightarrow> rpcResp list" where
  "sse_lines L candidates [] = candidates"
| "sse_lines L candidates (l # ls) =
     (let line = TrimSpace l in
      if \<not> HasPrefix line ''data:'' then sse_lines L candidates ls
      else
        let payload = TrimSpace (TrimPrefix line ''data:'') in
        if payload = [] \<or> payload = ''[DONE]'' then sse_lines L candidates ls
        else (case unmarshal_resp L payload zeroResp of
                (None, sseOne) \<Rightarrow> sse_lines L (add candidates sseOne) ls
              | (Some e, _) \<Rightarrow>
                  (case unmarshal_batch L payload of
                     (None, sseArr) \<Rightarrow> sse_lines L (add_all candidates sseArr) ls
                   | (Some e', _) \<Rightarrow> sse_lines L candidates ls)))"

text \<open>The loop that looks for the expected id.\<close>

fun first_with_id :: "rpcResp list \<Rightarrow> int \<Rightarrow> rpcResp option" where
  "first_with_id [] expectedID = None"
| "first_with_id (c # cs) expectedID =
     (if ID c = expectedID then Some c else first_with_id cs expectedID)"

text \<open>Errors are \<^verbatim>\<open>fmt.Errorf\<close> values; the model keeps their text.\<close>

definition decodeProxyResponse :: "lib \<Rightarrow> string \<Rightarrow> int \<Rightarrow> string + rpcResp" where
  "decodeProxyResponse L raw expectedID =
     (let data = TrimSpace raw in
      if data = [] then Inl ''empty response body''
      else
        let c1 = (case unmarshal_resp L data zeroResp of
                    (None, one) \<Rightarrow> add [] one
                  | (Some e, _) \<Rightarrow> []);
            c2 = (case unmarshal_batch L data of
                    (None, arr) \<Rightarrow> add_all c1 arr
                  | (Some e, _) \<Rightarrow> c1);
            candidates = sse_lines L c2 (Split data (CHR 0x0A))
        in (case candidates of
              [] \<Rightarrow> Inl (''unable to decode response: '' @ data)
            | c0 # _ \<Rightarrow>
                if expectedID > 0
                then (case first_with_id candidates expectedID of
                        Some c \<Rightarrow> Inr c
                      | None \<Rightarrow> Inl (''response id='' @ itoa expectedID @ '' not found''))
                else Inr c0))"

subsection \<open>The decoder as the specification words it\<close>

text \<open>
  The candidates of a body: the body itself as one response; the body as a batch; and,
  for every line \<open>data: payload\<close> whose payload is neither empty nor \<open>[DONE]\<close>, the
  payload as one response or else as a batch. Blank responses do not count.
\<close>

definition blank :: "rpcResp \<Rightarrow> bool" where
  "blank v = (JSONRPC v = [] \<and> Result v = None \<and> rpcResp.Error v = None)"

definition spec_payloads :: "string \<Rightarrow> string list" where
  "spec_payloads data =
     filter (\<lambda>p. p \<noteq> [] \<and> p \<noteq> ''[DONE]'')
       (map (\<lambda>l. TrimSpace (TrimPrefix (TrimSpace l) ''data:''))
          (filter (\<lambda>l. HasPrefix (TrimSpace l) ''data:'') (Split data (CHR 0x0A))))"

definition spec_object :: "lib \<Rightarrow> string \<Rightarrow> rpcResp list" where
  "spec_object L p =
     (case unmarshal_resp L p zeroResp of (None, v) \<Rightarrow> [v] | (Some e, _) \<Rightarrow> [])"

definition spec_array :: "lib \<Rightarrow> string \<Rightarrow> rpcResp list" where
  "spec_array L p = (case unmarshal_batch L p of (None, vs) \<Rightarrow> vs | (Some e, _) \<Rightarrow> [])"

definition spec_frame :: "lib \<Rightarrow> string \<Rightarrow> rpcResp list" where
  "spec_frame L p =
     (case unmarshal_resp L p zeroResp of (None, v) \<Rightarrow> [v] | (Some e, _) \<Rightarrow> spec_array L p)"

definition spec_candidates :: "lib \<Rightarrow> string \<Rightarrow> rpcResp list" where
  "spec_candidates L data =
     filter (\<lambda>v. \<not> blank v)
       (spec_object L data @ spec_array L data @ concat (map (spec_frame L) (spec_payloads data)))"

subsection \<open>The health manager's decoder\<close>

text \<open>
  The loop over the lines in \<^verbatim>\<open>decodeHTTPMCPResponse\<close>. It decodes into the variable
  \<open>resp\<close> that the first attempt on the whole body has already written to.
\<close>

fun sse_first :: "lib \<Rightarrow> rpcResp \<Rightarrow> string list \<Rightarrow> rpcResp option" where
  "sse_first L resp [] = None"
| "sse_first L resp (l # ls) =
     (let line = TrimSpace l in
      if \<not> HasPrefix line ''data:'' then sse_first L resp ls
      else
        let payload = TrimSpace (TrimPrefix line ''data:'') in
        if payload = [] \<or> payload = ''[DONE]'' then sse_first L resp ls
        else (case unmarshal_resp L payload resp of
                (None, resp') \<Rightarrow> Some resp'
              | (Some e, resp') \<Rightarrow> sse_first L resp' ls))"

definition decodeHTTPMCPResponse :: "lib \<Rightarrow> string \<Rightarrow> string + mcpResponse" where
  "decodeHTTPMCPResponse L raw =
     (let data = TrimSpace raw in
      if data = [] then Inl ''empty response body''
      else
        (case unmarshal_resp L data zeroResp of
           (err, resp) \<Rightarrow>
             if err = None \<and> (JSONRPC resp \<noteq> [] \<or> Result resp \<noteq> None \<or> rpcResp.Error resp \<noteq> None)
             then Inr resp
             else
               (case (case unmarshal_batch L data of
                        (None, b # _) \<Rightarrow> Some b
                      | _ \<Rightarrow> None) of
                  Some b \<Rightarrow> Inr b
                | None \<Rightarrow>
                    (case sse_first L resp (Split data (CHR 0x0A)) of
                       Some r \<Rightarrow> Inr r
                     | None \<Rightarrow> Inl (''unable to decode MCP response: '' @ data)))))"

text \<open>
  The health manager's loop in the same words: of the payloads of the \<open>data:\<close> lines,
  the first that decodes as one response. A payload that fails to decode may still have
  written to the response that the next attempt starts from.
\<close>

fun spec_first_object :: "lib \<Rightarrow> rpcResp \<Rightarrow> string list \<Rightarrow> rpcResp option" where
  "spec_first_object L resp [] = None"
| "spec_first_object L resp (p # ps) =
     (case unmarshal_resp L p resp of
        (None, resp') \<Rightarrow> Some resp'
      | (Some e, resp') \<Rightarrow> spec_first_object L resp' ps)"

section \<open>The proxy URI codec\<close>

definition proxyResourcePrefix :: string where
  "proxyResourcePrefix = ''mcp-catalog://resource/''"

definition proxyResourceTemplatePrefix :: string where
  "proxyResourceTemplatePrefix = ''mcp-catalog://resource-template/''"

record resourceRoute =
  ServerName :: string
  OriginalURI :: string
  TemplateMode :: bool

definition buildProxyResourceURI :: "string \<Rightarrow> string \<Rightarrow> bool \<Rightarrow> string" where
  "buildProxyResourceURI serverName originalURI template =
     (let encoded = EncodeToString originalURI in
      if template then proxyResourceTemplatePrefix @ serverName @ ''/'' @ encoded
      else proxyResourcePrefix @ serverName @ ''/'' @ encoded)"

text \<open>The second component of the Go result (\<open>ok\<close>) is \<open>Some\<close> versus \<open>None\<close>.\<close>

definition parseProxyResourceURI :: "string \<Rightarrow> resourceRoute option" where
  "parseProxyResourceURI uri =
     (case (if HasPrefix uri proxyResourceTemplatePrefix
            then Some (proxyResourceTemplatePrefix, True)
            else if \<not> HasPrefix uri proxyResourcePrefix then None
            else Some (proxyResourcePrefix, False)) of
        None \<Rightarrow> None
      | Some (prefix, template) \<Rightarrow>
          (let value = TrimPrefix uri prefix;
               parts = SplitN2 value ''/''
           in if length parts \<noteq> 2 \<or> parts ! 0 = [] \<or> parts ! 1 = [] then None
              else (case DecodeString (parts ! 1) of
                      None \<Rightarrow> None
                    | Some decoded \<Rightarrow>
                        Some \<lparr>resourceRoute.ServerName = parts ! 0, OriginalURI = decoded,
                              TemplateMode = template\<rparr>)))"

section \<open>Session routes of the proxy\<close>

record toolRoute =
  ServerName :: string
  ToolName :: string

record promptRoute =
  ServerName :: string
  PromptName :: string

record mcpSession =
  Tools :: "string \<rightharpoonup> toolRoute"
  Prompts :: "string \<rightharpoonup> promptRoute"
  Resources :: "string \<rightharpoonup> resourceRoute"
  ResourceTemplates :: "string \<rightharpoonup> resourceRoute"

text \<open>
  \<^verbatim>\<open>Server.mcpState\<close> is a Go map from session id to session; reading a missing key
  (or reading a nil map, as the stdio transport does) yields \<open>ok = false\<close>.
\<close>

type_synonym mcpState = "string \<rightharpoonup> mcpSession"

definition resolveToolRoute :: "mcpState \<Rightarrow> string \<Rightarrow> string \<Rightarrow> toolRoute option" where
  "resolveToolRoute st sessionID tool =
     (case (case st sessionID of None \<Rightarrow> None | Some ss \<Rightarrow> Tools ss tool) of
        Some r \<Rightarrow> Some r
      | None \<Rightarrow>
          (let parts = SplitN2 tool ''__''
           in if length parts \<noteq> 2 then None
              else Some \<lparr>toolRoute.ServerName = parts ! 0, ToolName = parts ! 1\<rparr>))"

section \<open>The health manager's data model\<close>

text \<open>
  \<^verbatim>\<open>config.MCPServer\<close>. The record is polymorphic in the representation of its two
  reference-typed fields: \<open>Args\<close> (a Go slice) and \<open>Env\<close> (a Go map). Code that only
  reads a descriptor sees them as a list and an association list.
\<close>

record ('a, 'e) MCPServer =
  Type :: string
  URL :: string
  Command :: string
  Args :: 'a
  Env :: 'e
  Enabled :: bool

type_synonym MCPServerV = "(string list, (string \<times> string) list) MCPServer"

datatype ServerStatus = StatusUnchecked | StatusChecking | StatusHealthy | StatusError

text \<open>Readings of \<^verbatim>\<open>time.Now()\<close> are inputs of the model.\<close>

type_synonym time = int

record LogEntry =
  Time :: time
  Level :: string
  Message :: string

record ServerInfo =
  Name :: string
  Config :: MCPServerV
  Status :: ServerStatus
  Error :: string
  Logs :: "LogEntry list"
  Tools :: "MCPTool list"
  LastCheck :: "time option"
  ServerName :: string
  ServerVersion :: string
  ProtocolVersion :: string
  CheckDuration :: int

definition maxLogEntries :: nat where
  "maxLogEntries = 500"

text \<open>
  \<^verbatim>\<open>Manager.addLog\<close>; \<open>now\<close> is the reading of the clock taken for the entry. The
  reslice \<^verbatim>\<open>info.Logs[len(info.Logs)-maxLogEntries:]\<close> keeps the last 500 entries.
\<close>

definition addLog :: "ServerInfo \<Rightarrow> time \<Rightarrow> string \<Rightarrow> string \<Rightarrow> ServerInfo" where
  "addLog info now level msg =
     (let entry = \<lparr>Time = now, Level = level, Message = msg\<rparr>;
          logs = Logs info @ [entry]
      in if length logs > maxLogEntries
         then info\<lparr>Logs := drop (length logs - maxLogEntries) logs\<rparr>
         else info\<lparr>Logs := logs\<rparr>)"

text \<open>A sequence of calls of \<^verbatim>\<open>addLog\<close> on the same record, oldest first.\<close>

definition addLogs :: "ServerInfo \<Rightarrow> LogEntry list \<Rightarrow> ServerInfo" where
  "addLogs info es = foldl (\<lambda>i e. addLog i (Time e) (Level e) (Message e)) info es"

text \<open>A record as \<^verbatim>\<open>getOrCreateInfo\<close> creates it, for a stdio server \<open>echo\<close>.\<close>

definition echo_server :: MCPServerV where
  "echo_server = \<lparr>Type = '''', URL = '''', Command = ''echo-server'', Args = [], Env = [],
                   Enabled = True\<rparr>"

definition echo_info :: ServerInfo where
  "echo_info = \<lparr>Name = ''echo'', Config = echo_server, Status = StatusUnchecked, Error = '''',
                 Logs = [], Tools = [], LastCheck = None, ServerName = '''',
                 ServerVersion = '''', ProtocolVersion = '''', CheckDuration = 0\<rparr>"

section \<open>The registry: \<^verbatim>\<open>config.Store\<close> on an explicit heap\<close>

text \<open>
  \<^verbatim>\<open>Store.Get\<close> and \<^verbatim>\<open>Store.GetServer\<close> hand out pointers, and a descriptor holds a
  slice and a map, which are references. What a caller can reach through a returned
  pointer depends on which objects are shared, so the registry is modelled on a heap:
  one partial map per kind of object, and a counter for allocation.
\<close>

type_synonym addr = nat

text \<open>A Go slice header: backing array, length, capacity. A nil slice is \<open>None\<close>.\<close>

record slice =
  array :: addr
  len :: nat
  cap :: nat

type_synonym MCPServerH = "(slice option, addr option) MCPServer"

record Config =
  MCPServers :: "addr option"
  HealthCheckInterval :: int

record heap =
  strArrays :: "addr \<rightharpoonup> string list"
  strMaps :: "addr \<rightharpoonup> (string \<times> string) list"
  serverObjs :: "addr \<rightharpoonup> MCPServerH"
  serverMaps :: "addr \<rightharpoonup> (string \<times> addr option) list"
  configObjs :: "addr \<rightharpoonup> Config"
  nextAddr :: addr

record Store =
  path :: string
  config :: "addr option"

datatype panic =
  NilPointerDereference | NilMapAssignment | IndexOutOfRange | CloseOfClosedChannel
  | CloseOfNilChannel

text \<open>
  The entries of a \<^verbatim>\<open>map[string]*MCPServer\<close>, in the order in which a \<^verbatim>\<open>range\<close>
  visits them (Go leaves the order open; the list fixes one). A nil map has none.
\<close>

definition serverEntries :: "heap \<Rightarrow> addr option \<Rightarrow> (string \<times> addr option) list" where
  "serverEntries h m =
     (case m of
        None \<Rightarrow> []
      | Some a \<Rightarrow> (case serverMaps h a of None \<Rightarrow> [] | Some es \<Rightarrow> es))"

text \<open>
  The loop of \<^verbatim>\<open>Store.Get\<close>: \<^verbatim>\<open>srv := *v; cp.MCPServers[k] = &srv\<close>. The struct is
  copied into a new object; its fields, the slice header and the map reference among
  them, are copied as they are. Dereferencing a nil \<open>v\<close> panics.
\<close>

fun Get_loop :: "heap \<Rightarrow> addr \<Rightarrow> (string \<times> addr option) list \<Rightarrow> panic + heap" where
  "Get_loop h cpm [] = Inr h"
| "Get_loop h cpm ((k, v) # rest) =
     (case v of
        None \<Rightarrow> Inl NilPointerDereference
      | Some a \<Rightarrow>
          (case serverObjs h a of
             None \<Rightarrow> Inl NilPointerDereference
           | Some srv \<Rightarrow>
               (let p = nextAddr h;
                    h' = h\<lparr>serverObjs := (serverObjs h)(p \<mapsto> srv),
                           serverMaps := (serverMaps h)(cpm \<mapsto>
                             AList.update k (Some p) (serverEntries h (Some cpm))),
                           nextAddr := p + 1\<rparr>
                in Get_loop h' cpm rest)))"

definition Get :: "heap \<Rightarrow> Store \<Rightarrow> panic + (heap \<times> addr)" where
  "Get h s =
     (case config s of
        None \<Rightarrow> Inl NilPointerDereference
      | Some c \<Rightarrow>
          (case configObjs h c of
             None \<Rightarrow> Inl NilPointerDereference
           | Some cfg \<Rightarrow>
               (let mp = nextAddr h;
                    cp = mp + 1;
                    h1 = h\<lparr>serverMaps := (serverMaps h)(mp \<mapsto> []),
                           configObjs := (configObjs h)(cp \<mapsto>
                             \<lparr>MCPServers = Some mp, HealthCheckInterval = 0\<rparr>),
                           nextAddr := cp + 1\<rparr>
                in (case Get_loop h1 mp (serverEntries h (MCPServers cfg)) of
                      Inl e \<Rightarrow> Inl e
                    | Inr h2 \<Rightarrow> Inr (h2, cp)))))"

definition GetServer :: "heap \<Rightarrow> Store \<Rightarrow> string \<Rightarrow> panic + (heap \<times> addr option)" where
  "GetServer h s name =
     (case config s of
        None \<Rightarrow> Inl NilPointerDereference
      | Some c \<Rightarrow>
          (case configObjs h c of
             None \<Rightarrow> Inl NilPointerDereference
           | Some cfg \<Rightarrow>
               (case map_of (serverEntries h (MCPServers cfg)) name of
                  None \<Rightarrow> Inr (h, None)
                | Some None \<Rightarrow> Inl NilPointerDereference
                | Some (Some a) \<Rightarrow>
                    (case serverObjs h a of
                       None \<Rightarrow> Inl NilPointerDereference
                     | Some srv \<Rightarrow>
                         (let p = nextAddr h
                          in Inr (h\<lparr>serverObjs := (serverObjs h)(p \<mapsto> srv),
                                    nextAddr := p + 1\<rparr>, Some p))))))"

subsection \<open>What a caller can do with a returned pointer\<close>

text \<open>\<^verbatim>\<open>srv.Env[k] = v\<close> for \<open>srv\<close> the descriptor at \<open>p\<close>.\<close>

definition assign_Env_entry :: "heap \<Rightarrow> addr \<Rightarrow> string \<Rightarrow> string \<Rightarrow> panic + heap" where
  "assign_Env_entry h p k v =
     (case serverObjs h p of
        None \<Rightarrow> Inl NilPointerDereference
      | Some srv \<Rightarrow>
          (case Env srv of
             None \<Rightarrow> Inl NilMapAssignment
           | Some m \<Rightarrow>
               Inr (h\<lparr>strMaps := (strMaps h)(m \<mapsto>
                      AList.update k v (case strMaps h m of None \<Rightarrow> [] | Some kv \<Rightarrow> kv))\<rparr>)))"

text \<open>\<^verbatim>\<open>srv.Args[i] = x\<close>.\<close>

definition assign_Args_elem :: "heap \<Rightarrow> addr \<Rightarrow> nat \<Rightarrow> string \<Rightarrow> panic + heap" where
  "assign_Args_elem h p i x =
     (case serverObjs h p of
        None \<Rightarrow> Inl NilPointerDereference
      | Some srv \<Rightarrow>
          (case Args srv of
             None \<Rightarrow> Inl IndexOutOfRange
           | Some sl \<Rightarrow>
               if i < len sl
               then Inr (h\<lparr>strArrays := (strArrays h)(array sl \<mapsto>
                      (case strArrays h (array sl) of None \<Rightarrow> [] | Some xs \<Rightarrow> xs)[i := x])\<rparr>)
               else Inl IndexOutOfRange))"

text \<open>
  An assignment to fields of the struct itself (\<^verbatim>\<open>srv.Command = c\<close>,
  \<^verbatim>\<open>srv.Enabled = b\<close>, \<^verbatim>\<open>srv.Args = nil\<close>, ...): \<open>f\<close> is the change to the struct.
\<close>

definition assign_fields :: "heap \<Rightarrow> addr \<Rightarrow> (MCPServerH \<Rightarrow> MCPServerH) \<Rightarrow> panic + heap" where
  "assign_fields h p f =
     (case serverObjs h p of
        None \<Rightarrow> Inl NilPointerDereference
      | Some srv \<Rightarrow> Inr (h\<lparr>serverObjs := (serverObjs h)(p \<mapsto> f srv)\<rparr>))"

subsection \<open>What the registry shows\<close>

text \<open>The descriptor at a struct, with its slice and its map read out of the heap.\<close>

definition derefServer :: "heap \<Rightarrow> MCPServerH \<Rightarrow> MCPServerV" where
  "derefServer h srv =
     \<lparr>Type = Type srv, URL = URL srv, Command = Command srv,
      Args = (case Args srv of
                None \<Rightarrow> []
              | Some sl \<Rightarrow>
                  take (len sl) (case strArrays h (array sl) of None \<Rightarrow> [] | Some xs \<Rightarrow> xs)),
      Env = (case Env srv of
               None \<Rightarrow> []
             | Some m \<Rightarrow> (case strMaps h m of None \<Rightarrow> [] | Some kv \<Rightarrow> kv)),
      Enabled = Enabled srv\<rparr>"

text \<open>A fresh \<^verbatim>\<open>GetServer(name)\<close>, read in full: what a later reader sees.\<close>

definition readServer :: "heap \<Rightarrow> Store \<Rightarrow> string \<Rightarrow> panic + MCPServerV option" where
  "readServer h s name =
     (case GetServer h s name of
        Inl e \<Rightarrow> Inl e
      | Inr (h', None) \<Rightarrow> Inr None
      | Inr (h', Some p) \<Rightarrow>
          (case serverObjs h' p of
             None \<Rightarrow> Inl NilPointerDereference
           | Some srv \<Rightarrow> Inr (Some (derefServer h' srv))))"

text \<open>A fresh \<^verbatim>\<open>Get()\<close>, read in full.\<close>

fun readEntries :: "heap \<Rightarrow> (string \<times> addr option) list \<Rightarrow> (string \<times> MCPServerV option) list" where
  "readEntries h [] = []"
| "readEntries h ((k, v) # rest) =
     (k, (case v of
            None \<Rightarrow> None
          | Some a \<Rightarrow> map_option (derefServer h) (serverObjs h a))) # readEntries h rest"

definition readAll :: "heap \<Rightarrow> Store \<Rightarrow> panic + (string \<times> MCPServerV option) list" where
  "readAll h s =
     (case Get h s of
        Inl e \<Rightarrow> Inl e
      | Inr (h', c) \<Rightarrow>
          (case configObjs h' c of
             None \<Rightarrow> Inl NilPointerDereference
           | Some cfg \<Rightarrow> Inr (readEntries h' (serverEntries h' (MCPServers cfg)))))"

text \<open>
  A registry as \<^verbatim>\<open>Load\<close> leaves it after reading one stdio server with two arguments
  and one environment variable.
\<close>

definition heap0 :: heap where
  "heap0 =
     \<lparr>strArrays = [10 \<mapsto> [''--port'', ''1'']],
      strMaps = [11 \<mapsto> [(''K'', ''v'')]],
      serverObjs = [12 \<mapsto> \<lparr>Type = '''', URL = '''', Command = ''echo-server'',
                            Args = Some \<lparr>array = 10, len = 2, cap = 2\<rparr>, Env = Some 11,
                            Enabled = True\<rparr>],
      serverMaps = [13 \<mapsto> [(''echo'', Some 12)]],
      configObjs = [14 \<mapsto> \<lparr>MCPServers = Some 13, HealthCheckInterval = 0\<rparr>],
      nextAddr = 15\<rparr>"

definition store0 :: Store where
  "store0 = \<lparr>path = ''config.json'', config = Some 14\<rparr>"

section \<open>The health manager\<close>

text \<open>
  \<^verbatim>\<open>stopHealth\<close> is a \<^verbatim>\<open>chan struct{}\<close> on which nothing is ever sent: all that
  matters is whether it is nil, open or closed. A receive from it proceeds exactly when
  it is closed, and that is how the health loop learns that it has to return.
\<close>

datatype chan = ChanNil | ChanOpen | ChanClosed

definition recv_ready :: "chan \<Rightarrow> bool" where
  "recv_ready c = (c = ChanClosed)"

text \<open>The Go built-in \<^verbatim>\<open>close\<close>.\<close>

definition close_chan :: "chan \<Rightarrow> panic + chan" where
  "close_chan c =
     (case c of
        ChanNil \<Rightarrow> Inl CloseOfNilChannel
      | ChanOpen \<Rightarrow> Inr ChanClosed
      | ChanClosed \<Rightarrow> Inl CloseOfClosedChannel)"

text \<open>
  \<^verbatim>\<open>Manager\<close>. The field \<open>store\<close> stands for the registry as the manager reads it:
  \<open>store m name\<close> is the descriptor that \<^verbatim>\<open>m.store.GetServer(name)\<close> returns a copy
  of. Listeners are kept by number. The three mutexes have no counterpart: the model is
  sequential.
\<close>

record Manager =
  store :: "string \<rightharpoonup> MCPServerV"
  servers :: "string \<rightharpoonup> ServerInfo"
  listeners :: "nat list"
  healthInterval :: int
  stopHealth :: chan

text \<open>\<^verbatim>\<open>New\<close>; \<open>interval\<close> is \<^verbatim>\<open>store.GetHealthCheckInterval()\<close>.\<close>

definition New :: "(string \<rightharpoonup> MCPServerV) \<Rightarrow> int \<Rightarrow> Manager" where
  "New st interval =
     \<lparr>store = st, servers = Map.empty, listeners = [], healthInterval = interval,
      stopHealth = ChanOpen\<rparr>"

definition StopHealthLoop :: "Manager \<Rightarrow> panic + Manager" where
  "StopHealthLoop m =
     (case close_chan (stopHealth m) of
        Inl e \<Rightarrow> Inl e
      | Inr c \<Rightarrow> Inr (m\<lparr>stopHealth := c\<rparr>))"

subsection \<open>Subscribers\<close>

text \<open>
  \<^verbatim>\<open>notify\<close> starts one goroutine per listener, in the order of registration, and hands
  each the name and the pointer to the record. The model lists the goroutines started:
  listener, name, and the record as it is at that moment.
\<close>

type_synonym notification = "nat \<times> string \<times> ServerInfo"

definition OnChange :: "Manager \<Rightarrow> nat \<Rightarrow> Manager" where
  "OnChange m fn = m\<lparr>listeners := listeners m @ [fn]\<rparr>"

definition notify :: "Manager \<Rightarrow> string \<Rightarrow> ServerInfo \<Rightarrow> notification list" where
  "notify m name info = map (\<lambda>fn. (fn, name, info)) (listeners m)"

text \<open>
  \<^verbatim>\<open>getOrCreateInfo\<close>: the record of the server, created and stored on first use; nil
  (\<open>None\<close>) when the registry does not know the name.
\<close>

definition getOrCreateInfo :: "Manager \<Rightarrow> string \<Rightarrow> Manager \<times> ServerInfo option" where
  "getOrCreateInfo m name =
     (case servers m name of
        Some info \<Rightarrow> (m, Some info)
      | None \<Rightarrow>
          (case store m name of
             None \<Rightarrow> (m, None)
           | Some srv \<Rightarrow>
               (let info = \<lparr>Name = name, Config = srv, Status = StatusUnchecked, Error = [],
                            Logs = [], Tools = [], LastCheck = None, ServerName = [],
                            ServerVersion = [], ProtocolVersion = [], CheckDuration = 0\<rparr>
                in (m\<lparr>servers := (servers m)(name \<mapsto> info)\<rparr>, Some info))))"

subsection \<open>What one check meets\<close>

text \<open>
  A check talks to the operating system, to a child process or an HTTP server, and reads
  the clock. The outcomes of these steps are the inputs of the model. An error is its
  text (\<^verbatim>\<open>err.Error()\<close>).

  For a stdio server: the three pipes, the start of the process (an error or the PID),
  and the writes to and reads from the child.
\<close>

record stdio_run =
  stdinPipe :: "string option"
  stdoutPipe :: "string option"
  stderrPipe :: "string option"
  startProcess :: "string + int"
  writeInit :: "string option"
  readInit :: "string + string"
  writeTools :: "string option"
  readTools :: "string + string"

text \<open>
  For an HTTP server, each POST ends in one of these ways: the payload does not encode;
  the request cannot be built; the round trip fails; or a response arrives, with its
  status, the bytes of its body that could be read, and the read error if there was one.
\<close>

datatype http_exchange =
  EncodeError string
  | CreateError string
  | SendError string
  | Response int string "string option"

record http_run =
  initExchange :: http_exchange
  notifExchange :: http_exchange
  toolsExchange :: http_exchange

text \<open>\<open>clock k\<close> is the \<open>k\<close>-th reading of the clock during the check, in nanoseconds.\<close>

record check_env =
  clock :: "nat \<Rightarrow> time"
  stdio :: stdio_run
  http :: http_run

text \<open>The record under check, and the number of clock readings taken so far.\<close>

record run =
  rinfo :: ServerInfo
  reads :: nat

text \<open>\<^verbatim>\<open>m.addLog(info, level, msg)\<close>, with the reading of the clock that it takes.\<close>

definition logr :: "check_env \<Rightarrow> string \<Rightarrow> string \<Rightarrow> run \<Rightarrow> run" where
  "logr E level msg r =
     \<lparr>rinfo = addLog (rinfo r) (clock E (reads r)) level msg, reads = reads r + 1\<rparr>"

text \<open>\<^verbatim>\<open>Duration.Milliseconds\<close>: integer division that truncates towards zero.\<close>

definition Milliseconds :: "int \<Rightarrow> int" where
  "Milliseconds d = (if d \<ge> 0 then d div 1000000 else - ((- d) div 1000000))"

text \<open>\<^verbatim>\<open>info.CheckDuration = time.Since(startTime).Milliseconds()\<close>\<close>

definition setDuration :: "check_env \<Rightarrow> time \<Rightarrow> run \<Rightarrow> run" where
  "setDuration E startTime r =
     \<lparr>rinfo = (rinfo r)\<lparr>CheckDuration := Milliseconds (clock E (reads r) - startTime)\<rparr>,
      reads = reads r + 1\<rparr>"

definition bytes_of :: "string option \<Rightarrow> string" where
  "bytes_of raw = (case raw of None \<Rightarrow> [] | Some b \<Rightarrow> b)"

text \<open>
  The part that both transports share: the result of \<^verbatim>\<open>initialize\<close> is decoded, and
  the three fields are set only if that worked; then the line \<open>MCP initialized\<close> is
  logged.
\<close>

definition recordInit :: "lib \<Rightarrow> check_env \<Rightarrow> rpcResp \<Rightarrow> run \<Rightarrow> run" where
  "recordInit L E initResp r =
     (let r1 = (case unmarshal_init L (bytes_of (Result initResp)) of
                  None \<Rightarrow> r
                | Some initResult \<Rightarrow>
                    r\<lparr>rinfo := (rinfo r)\<lparr>
                        ServerName := mcpServerInfoResp.Name (ServerInfo initResult),
                        ServerVersion := Version (ServerInfo initResult),
                        ProtocolVersion := mcpInitResult.ProtocolVersion initResult\<rparr>\<rparr>)
      in logr E ''info''
           (''MCP initialized: '' @ ServerName (rinfo r1) @ '' '' @ ServerVersion (rinfo r1)
              @ '' (protocol '' @ ProtocolVersion (rinfo r1) @ '')'') r1)"

text \<open>
  Also shared: a \<^verbatim>\<open>tools/list\<close> response without error is decoded; the tools are
  stored if that worked, and a warning is logged if it did not.
\<close>

definition recordTools :: "lib \<Rightarrow> check_env \<Rightarrow> rpcResp \<Rightarrow> run \<Rightarrow> run" where
  "recordTools L E toolsResp r =
     (case unmarshal_tools L (bytes_of (Result toolsResp)) of
        Inl e \<Rightarrow> logr E ''warn'' (''Failed to parse tools: '' @ e) r
      | Inr tools \<Rightarrow>
          logr E ''info'' (''Discovered '' @ itoa (int (length tools)) @ '' tools'')
            (r\<lparr>rinfo := (rinfo r)\<lparr>Tools := tools\<rparr>\<rparr>))"

subsection \<open>The check of a stdio server\<close>

text \<open>
  \<^verbatim>\<open>doCheck\<close> from the request \<^verbatim>\<open>tools/list\<close> to its end. Every path returns nil. The
  goroutine that copies the child's stderr into the log runs beside this code; its
  entries are not part of the sequential model.
\<close>

definition doCheck_tools :: "lib \<Rightarrow> check_env \<Rightarrow> time \<Rightarrow> run \<Rightarrow> string option \<times> run" where
  "doCheck_tools L E startTime r =
     (case writeTools (stdio E) of
        Some e \<Rightarrow> (None, logr E ''warn'' (''Failed to send tools/list: '' @ e) r)
      | None \<Rightarrow>
          (case readTools (stdio E) of
             Inl e \<Rightarrow> (None, logr E ''warn'' (''Failed to read tools/list response: '' @ e) r)
           | Inr line \<Rightarrow>
               (let r1 = (case unmarshal_resp L line zeroResp of
                            (Some e, _) \<Rightarrow>
                              logr E ''warn'' (''Invalid tools/list response: '' @ e) r
                          | (None, toolsResp) \<Rightarrow>
                              (case rpcResp.Error toolsResp of
                                 Some er \<Rightarrow>
                                   logr E ''warn'' (''tools/list error: '' @ rpcErr.Message er) r
                               | None \<Rightarrow> recordTools L E toolsResp r));
                    r2 = setDuration E startTime r1
                in (None, logr E ''info''
                      (''Check completed in '' @ itoa (CheckDuration (rinfo r2))
                         @ ''ms, process stopped'') r2))))"

text \<open>\<^verbatim>\<open>doCheck\<close> from the start of the process to the log line \<open>MCP initialized\<close>.\<close>

definition doCheck_started :: "lib \<Rightarrow> check_env \<Rightarrow> run \<Rightarrow> string option \<times> run" where
  "doCheck_started L E r0 =
     (let startTime = clock E (reads r0);
          r = r0\<lparr>reads := reads r0 + 1\<rparr>
      in case startProcess (stdio E) of
           Inl e \<Rightarrow>
             (Some (''start: '' @ e),
              logr E ''error'' (''Failed to start: '' @ e) (setDuration E startTime r))
         | Inr pid \<Rightarrow>
             (let r1 = logr E ''info'' (''Started with PID '' @ itoa pid) r
              in case writeInit (stdio E) of
                   Some e \<Rightarrow>
                     (Some (''send initialize: '' @ e),
                      logr E ''error'' (''Failed to send initialize: '' @ e) r1)
                 | None \<Rightarrow>
                     (case readInit (stdio E) of
                        Inl e \<Rightarrow>
                          (Some (''read initialize response: '' @ e),
                           logr E ''error'' (''Failed to read initialize response: '' @ e) r1)
                      | Inr line \<Rightarrow>
                          (case unmarshal_resp L line zeroResp of
                             (Some e, _) \<Rightarrow>
                               (Some (''parse initialize response: '' @ e),
                                logr E ''error'' (''Invalid initialize response: '' @ e) r1)
                           | (None, initResp) \<Rightarrow>
                               (case rpcResp.Error initResp of
                                  Some er \<Rightarrow>
                                    (Some (''initialize: '' @ rpcErr.Message er),
                                     logr E ''error''
                                       (''Initialize error: '' @ rpcErr.Message er)
                                       (setDuration E startTime r1))
                                | None \<Rightarrow>
                                    doCheck_tools L E startTime
                                      (recordInit L E initResp r1))))))"

subsection \<open>The check of an HTTP server\<close>

text \<open>
  The closure \<^verbatim>\<open>send\<close> of \<^verbatim>\<open>doCheckStreamableHTTP\<close>, once for each value of its flag
  \<^verbatim>\<open>expectResponse\<close>. With the flag set it returns an error or a response, never
  \<^verbatim>\<open>nil, nil\<close>.
\<close>

definition send_expect :: "lib \<Rightarrow> http_exchange \<Rightarrow> string + mcpResponse" where
  "send_expect L x =
     (case x of
        EncodeError e \<Rightarrow> Inl (''encode request: '' @ e)
      | CreateError e \<Rightarrow> Inl (''create request: '' @ e)
      | SendError e \<Rightarrow> Inl (''send request: '' @ e)
      | Response code body readErr \<Rightarrow>
          if code \<ge> 400
          then Inl (''http status '' @ itoa code @ '': '' @ TrimSpace (take 4096 body))
          else (case readErr of
                  Some e \<Rightarrow> Inl (''read response: '' @ e)
                | None \<Rightarrow> decodeHTTPMCPResponse L body))"

definition send_notify :: "http_exchange \<Rightarrow> string option" where
  "send_notify x =
     (case x of
        EncodeError e \<Rightarrow> Some (''encode request: '' @ e)
      | CreateError e \<Rightarrow> Some (''create request: '' @ e)
      | SendError e \<Rightarrow> Some (''send request: '' @ e)
      | Response code body readErr \<Rightarrow>
          if code \<ge> 400
          then Some (''http status '' @ itoa code @ '': '' @ TrimSpace (take 4096 body))
          else None)"

definition doCheckStreamableHTTP ::
    "lib \<Rightarrow> check_env \<Rightarrow> MCPServerV \<Rightarrow> run \<Rightarrow> string option \<times> run" where
  "doCheckStreamableHTTP L E srv r0 =
     (if URL srv = []
      then (Some ''missing url for streamableHttp server'',
            logr E ''error'' ''missing url for streamableHttp server'' r0)
      else
        let startTime = clock E (reads r0);
            r = logr E ''info'' (''Connecting via streamable HTTP: '' @ URL srv)
                  (r0\<lparr>reads := reads r0 + 1\<rparr>)
        in case send_expect L (initExchange (http E)) of
             Inl e \<Rightarrow>
               (Some (''initialize request: '' @ e),
                logr E ''error'' (''Initialize request failed: '' @ e)
                  (setDuration E startTime r))
           | Inr initResp \<Rightarrow>
               (case rpcResp.Error initResp of
                  Some er \<Rightarrow>
                    (Some (''initialize: '' @ rpcErr.Message er),
                     logr E ''error'' (''Initialize error: '' @ rpcErr.Message er)
                       (setDuration E startTime r))
                | None \<Rightarrow>
                    (let r1 = recordInit L E initResp r;
                         r2 = (case send_notify (notifExchange (http E)) of
                                 Some e \<Rightarrow>
                                   logr E ''warn''
                                     (''Failed to send initialized notification: '' @ e) r1
                               | None \<Rightarrow> r1)
                     in case send_expect L (toolsExchange (http E)) of
                          Inl e \<Rightarrow>
                            (None,
                             logr E ''warn'' (''tools/list request failed: '' @ e)
                               (setDuration E startTime r2))
                        | Inr toolsResp \<Rightarrow>
                            (let r3 = (case rpcResp.Error toolsResp of
                                         Some er \<Rightarrow>
                                           logr E ''warn''
                                             (''tools/list error: '' @ rpcErr.Message er) r2
                                       | None \<Rightarrow> recordTools L E toolsResp r2);
                                 r4 = setDuration E startTime r3
                             in (None,
                                 logr E ''info''
                                   (''Check completed in ''
                                      @ itoa (CheckDuration (rinfo r4)) @ ''ms'') r4)))))"

subsection \<open>\<^verbatim>\<open>doCheck\<close> and \<^verbatim>\<open>Check\<close>\<close>

definition isStreamableHTTPServer :: "lib \<Rightarrow> MCPServerV \<Rightarrow> bool" where
  "isStreamableHTTPServer L srv =
     (if EqualFold L (TrimSpace (Type srv)) ''streamableHttp'' then True
      else TrimSpace (URL srv) \<noteq> [] \<and> TrimSpace (Command srv) = [])"

definition doCheck :: "lib \<Rightarrow> check_env \<Rightarrow> MCPServerV \<Rightarrow> run \<Rightarrow> string option \<times> run" where
  "doCheck L E srv r =
     (if isStreamableHTTPServer L srv then doCheckStreamableHTTP L E srv r
      else if Command srv = []
      then (Some ''missing command for stdio server'',
            logr E ''error'' ''missing command for stdio server'' r)
      else
        (case stdinPipe (stdio E) of
           Some e \<Rightarrow> (Some (''stdin pipe: '' @ e), logr E ''error'' (''stdin pipe: '' @ e) r)
         | None \<Rightarrow>
             (case stdoutPipe (stdio E) of
                Some e \<Rightarrow>
                  (Some (''stdout pipe: '' @ e), logr E ''error'' (''stdout pipe: '' @ e) r)
              | None \<Rightarrow>
                  (case stderrPipe (stdio E) of
                     Some e \<Rightarrow>
                       (Some (''stderr pipe: '' @ e),
                        logr E ''error'' (''stderr pipe: '' @ e) r)
                   | None \<Rightarrow> doCheck_started L E r))))"

text \<open>\<^verbatim>\<open>strings.Join\<close>\<close>

fun Join :: "string list \<Rightarrow> string \<Rightarrow> string" where
  "Join [] sep = []"
| "Join [x] sep = x"
| "Join (x # y # ys) sep = x @ sep @ Join (y # ys) sep"

definition checkTarget :: "lib \<Rightarrow> MCPServerV \<Rightarrow> string" where
  "checkTarget L srv =
     (let target = (if isStreamableHTTPServer L srv then ''streamableHttp '' @ URL srv
                    else TrimSpace (Join (Command srv # Args srv) '' ''))
      in if target = [] then ''(invalid config: no command/url)'' else target)"

text \<open>
  \<^verbatim>\<open>Check\<close> up to its first \<^verbatim>\<open>notify\<close>: the record is marked as checking, the
  old error is cleared, the descriptor is refreshed, and the line \<open>Checking\<close> is logged.
\<close>

definition check_begin :: "lib \<Rightarrow> check_env \<Rightarrow> MCPServerV \<Rightarrow> ServerInfo \<Rightarrow> run" where
  "check_begin L E srv info =
     logr E ''info'' (''Checking: '' @ checkTarget L srv)
       \<lparr>rinfo = info\<lparr>Status := StatusChecking, Error := [], Config := srv\<rparr>, reads = 0\<rparr>"

text \<open>\<^verbatim>\<open>Check\<close> after \<^verbatim>\<open>doCheck\<close>: the time of the check and the verdict are stored.\<close>

definition check_end :: "check_env \<Rightarrow> string option \<Rightarrow> run \<Rightarrow> ServerInfo" where
  "check_end E err r2 =
     (case err of
        Some e \<Rightarrow>
          (rinfo r2)\<lparr>LastCheck := Some (clock E (reads r2)), Status := StatusError,
                      Error := e\<rparr>
      | None \<Rightarrow>
          (rinfo r2)\<lparr>LastCheck := Some (clock E (reads r2)), Status := StatusHealthy,
                      Error := []\<rparr>)"

text \<open>
  \<^verbatim>\<open>Check\<close>. The result is the error (nil is \<open>None\<close>), the manager afterwards, and the
  goroutines that the two calls of \<^verbatim>\<open>notify\<close> started, in order. The record is changed
  through a pointer that the manager's map holds too; the model writes it back at the
  end.
\<close>

definition Check ::
    "lib \<Rightarrow> check_env \<Rightarrow> Manager \<Rightarrow> string \<Rightarrow> string option \<times> Manager \<times> notification list"
  where
  "Check L E m name =
     (case store m name of
        None \<Rightarrow> (Some (''server '' @ Quote L name @ '' not found''), m, [])
      | Some srv \<Rightarrow>
          (case getOrCreateInfo m name of
             (m1, None) \<Rightarrow> (Some (''server '' @ Quote L name @ '' not found''), m1, [])
           | (m1, Some info) \<Rightarrow>
               (let r1 = check_begin L E srv info;
                    n1 = notify m1 name (rinfo r1)
                in case doCheck L E srv r1 of
                     (err, r2) \<Rightarrow>
                       (let info2 = check_end E err r2;
                            n2 = notify m1 name info2
                        in (err, m1\<lparr>servers := (servers m1)(name \<mapsto> info2)\<rparr>,
                            n1 @ n2)))))"

text \<open>
  Claim C6 speaks of a check whose handshake succeeds and whose \<^verbatim>\<open>tools/list\<close> step
  fails. In terms of what the check meets: the handshake succeeds when every step up to
  the response to \<^verbatim>\<open>initialize\<close> works and the response carries no error.
\<close>

definition init_succeeds :: "lib \<Rightarrow> check_env \<Rightarrow> MCPServerV \<Rightarrow> bool" where
  "init_succeeds L E srv =
     (if isStreamableHTTPServer L srv
      then URL srv \<noteq> [] \<and>
           (case send_expect L (initExchange (http E)) of
              Inl e \<Rightarrow> False
            | Inr initResp \<Rightarrow> rpcResp.Error initResp = None)
      else Command srv \<noteq> [] \<and> stdinPipe (stdio E) = None \<and> stdoutPipe (stdio E) = None \<and>
           stderrPipe (stdio E) = None \<and>
           (case startProcess (stdio E) of Inl e \<Rightarrow> False | Inr pid \<Rightarrow> True) \<and>
           writeInit (stdio E) = None \<and>
           (case readInit (stdio E) of
              Inl e \<Rightarrow> False
            | Inr line \<Rightarrow>
                (case unmarshal_resp L line zeroResp of
                   (Some e, _) \<Rightarrow> False
                 | (None, initResp) \<Rightarrow> rpcResp.Error initResp = None)))"

text \<open>
  The \<^verbatim>\<open>tools/list\<close> step fails when the request cannot be sent, the response cannot
  be read or decoded, the response carries an error, or its result is not a tool list.
\<close>

definition tools_undecodable :: "lib \<Rightarrow> rpcResp \<Rightarrow> bool" where
  "tools_undecodable L toolsResp =
     (case unmarshal_tools L (bytes_of (Result toolsResp)) of Inl e \<Rightarrow> True | Inr ts \<Rightarrow> False)"

definition tools_list_fails :: "lib \<Rightarrow> check_env \<Rightarrow> MCPServerV \<Rightarrow> bool" where
  "tools_list_fails L E srv =
     (if isStreamableHTTPServer L srv
      then (case send_expect L (toolsExchange (http E)) of
              Inl e \<Rightarrow> True
            | Inr toolsResp \<Rightarrow>
                (case rpcResp.Error toolsResp of
                   Some er \<Rightarrow> True
                 | None \<Rightarrow> tools_undecodable L toolsResp))
      else (case writeTools (stdio E) of
              Some e \<Rightarrow> True
            | None \<Rightarrow>
                (case readTools (stdio E) of
                   Inl e \<Rightarrow> True
                 | Inr line \<Rightarrow>
                     (case unmarshal_resp L line zeroResp of
                        (Some e, _) \<Rightarrow> True
                      | (None, toolsResp) \<Rightarrow>
                          (case rpcResp.Error toolsResp of
                             Some er \<Rightarrow> True
                           | None \<Rightarrow> tools_undecodable L toolsResp)))))"

text \<open>A warning is in the log; a warning is the newest entry of the log.\<close>

definition warned :: "run \<Rightarrow> bool" where
  "warned r = (\<exists>e \<in> set (Logs (rinfo r)). Level e = ''warn'')"

definition warned_last :: "run \<Rightarrow> bool" where
  "warned_last r = (Logs (rinfo r) \<noteq> [] \<and> Level (last (Logs (rinfo r))) = ''warn'')"

section \<open>The proxy front-end over HTTP\<close>

subsection \<open>Requests, responses, and what a request meets\<close>

record rpcReq =
  JSONRPC :: string
  ID :: int
  Method :: string
  Params :: "string option"

type_synonym proxiedTool = MCPTool

record toolsCallParams =
  Name :: string
  Arguments :: "string option"

text \<open>
  A decoded JSON object with values of any type (\<^verbatim>\<open>map[string]any\<close>): the code only
  tells a string from everything else, which is kept as its JSON text.
\<close>

datatype jvalue = JString string | JOther string

type_synonym jobject = "(string \<times> jvalue) list"

text \<open>\<^verbatim>\<open>v, _ := params[key].(string)\<close>\<close>

definition string_at :: "jobject \<Rightarrow> string \<Rightarrow> string" where
  "string_at params key = (case map_of params key of Some (JString v) \<Rightarrow> v | _ \<Rightarrow> [])"

text \<open>The values that \<^verbatim>\<open>writeRPCResult\<close> is given to encode.\<close>

datatype result_value =
  InitializeResult
  | ToolsListResult "proxiedTool list"
  | ListResult string "jobject list"

text \<open>
  What a request meets outside the handler: the random session id; \<^verbatim>\<open>json.Marshal\<close>
  and \<^verbatim>\<open>json.Unmarshal\<close> on the values of the request; the four aggregations, which
  ask every enabled downstream server; and \<^verbatim>\<open>forwardMCP\<close>, which runs one downstream
  call and returns an error or the raw result (nil is \<open>None\<close>).
\<close>

record proxy_env =
  newSessionID :: "string + string"
  marshal :: "result_value \<Rightarrow> string + string"
  unmarshal_toolsCall :: "string \<Rightarrow> string + toolsCallParams"
  unmarshal_object :: "string \<Rightarrow> string + jobject"
  unmarshal_any :: "string \<Rightarrow> string + jvalue"
  aggregateTools :: "proxiedTool list \<times> (string \<rightharpoonup> toolRoute)"
  aggregatePrompts :: "jobject list \<times> (string \<rightharpoonup> promptRoute)"
  aggregateResources :: "jobject list \<times> (string \<rightharpoonup> resourceRoute)"
  aggregateResourceTemplates :: "jobject list \<times> (string \<rightharpoonup> resourceRoute)"
  forwardMCP :: "string \<Rightarrow> MCPServerV \<Rightarrow> string \<Rightarrow> jobject \<Rightarrow> string + string option"

text \<open>
  The part of \<^verbatim>\<open>Server\<close> that the proxy uses: the registry, read through
  \<^verbatim>\<open>GetServer\<close>, and the sessions.
\<close>

record Server =
  registry :: "string \<rightharpoonup> MCPServerV"
  mcpState :: mcpState

text \<open>
  Of the HTTP request the handler reads the method, the body, decoded as one JSON-RPC
  request (an error text if it does not decode), and the header \<^verbatim>\<open>MCP-Session-Id\<close>
  (empty if absent).
\<close>

record request =
  httpMethod :: string
  bodyDecode :: "string + rpcReq"
  sessionHeader :: string

text \<open>
  The response writer. \<open>status = 0\<close> means that no status has been written yet. Like
  \<^verbatim>\<open>net/http\<close>, the first write of body bytes sends status 200 if none was set, and a
  second \<^verbatim>\<open>WriteHeader\<close> has no effect. What is written is kept in structured form: a
  plain text, or a JSON-RPC envelope that \<^verbatim>\<open>json.Encoder\<close> encodes.
\<close>

datatype written = Plain string | Envelope rpcResp

record response =
  status :: int
  header :: "(string \<times> string) list"
  body :: "written list"

definition newResponse :: response where
  "newResponse = \<lparr>status = 0, header = [], body = []\<rparr>"

definition setHeader :: "string \<Rightarrow> string \<Rightarrow> response \<Rightarrow> response" where
  "setHeader k v w = w\<lparr>header := AList.update k v (header w)\<rparr>"

definition WriteHeader :: "int \<Rightarrow> response \<Rightarrow> response" where
  "WriteHeader code w = (if status w = 0 then w\<lparr>status := code\<rparr> else w)"

definition Write :: "written \<Rightarrow> response \<Rightarrow> response" where
  "Write x w = (let w' = WriteHeader 200 w in w'\<lparr>body := body w' @ [x]\<rparr>)"

text \<open>\<^verbatim>\<open>http.Error\<close>\<close>

definition httpError :: "response \<Rightarrow> string \<Rightarrow> int \<Rightarrow> response" where
  "httpError w msg code =
     Write (Plain (msg @ [CHR 0x0A]))
       (WriteHeader code
          (setHeader ''X-Content-Type-Options'' ''nosniff''
             (setHeader ''Content-Type'' ''text/plain; charset=utf-8'' w)))"

subsection \<open>Writing JSON-RPC responses\<close>

definition writeRPCError :: "response \<Rightarrow> int \<Rightarrow> int \<Rightarrow> string \<Rightarrow> response" where
  "writeRPCError w id' code msg =
     Write (Envelope \<lparr>rpcResp.JSONRPC = ''2.0'', ID = id', Result = None,
                       Error = Some \<lparr>Code = code, Message = msg\<rparr>\<rparr>)
       (setHeader ''Content-Type'' ''application/json'' w)"

definition writeRPCResult ::
    "proxy_env \<Rightarrow> response \<Rightarrow> int \<Rightarrow> result_value \<Rightarrow> string \<Rightarrow> response" where
  "writeRPCResult P w id' result sessionID =
     (case marshal P result of
        Inl e \<Rightarrow> writeRPCError w id' (- 32603) ''failed to encode result''
      | Inr raw \<Rightarrow>
          (let w1 = setHeader ''Content-Type'' ''application/json'' w;
               w2 = (if sessionID \<noteq> [] then setHeader ''MCP-Session-Id'' sessionID w1 else w1)
           in Write (Envelope \<lparr>rpcResp.JSONRPC = ''2.0'', ID = id', Result = Some raw, Error = None\<rparr>)
                w2))"

definition writeRawResult :: "response \<Rightarrow> int \<Rightarrow> string option \<Rightarrow> string \<Rightarrow> response" where
  "writeRawResult w id' result sessionID =
     (let w1 = setHeader ''Content-Type'' ''application/json'' w;
          w2 = (if sessionID \<noteq> [] then setHeader ''MCP-Session-Id'' sessionID w1 else w1);
          result' = (if length (bytes_of result) = 0 then Some ''{}'' else result)
      in Write (Envelope \<lparr>rpcResp.JSONRPC = ''2.0'', ID = id', Result = result', Error = None\<rparr>) w2)"

subsection \<open>Sessions and routes\<close>

definition hasSession :: "Server \<Rightarrow> string \<Rightarrow> bool" where
  "hasSession s sessionID = (mcpState s sessionID \<noteq> None)"

definition updateSessionTools :: "Server \<Rightarrow> string \<Rightarrow> (string \<rightharpoonup> toolRoute) \<Rightarrow> Server" where
  "updateSessionTools s sessionID routes =
     (case mcpState s sessionID of
        None \<Rightarrow> s
      | Some ss \<Rightarrow> s\<lparr>mcpState := (mcpState s)(sessionID \<mapsto> ss\<lparr>mcpSession.Tools := routes\<rparr>)\<rparr>)"

definition updateSessionPrompts ::
    "Server \<Rightarrow> string \<Rightarrow> (string \<rightharpoonup> promptRoute) \<Rightarrow> Server" where
  "updateSessionPrompts s sessionID routes =
     (case mcpState s sessionID of
        None \<Rightarrow> s
      | Some ss \<Rightarrow> s\<lparr>mcpState := (mcpState s)(sessionID \<mapsto> ss\<lparr>Prompts := routes\<rparr>)\<rparr>)"

definition updateSessionResources ::
    "Server \<Rightarrow> string \<Rightarrow> (string \<rightharpoonup> resourceRoute) \<Rightarrow> Server" where
  "updateSessionResources s sessionID routes =
     (case mcpState s sessionID of
        None \<Rightarrow> s
      | Some ss \<Rightarrow> s\<lparr>mcpState := (mcpState s)(sessionID \<mapsto> ss\<lparr>Resources := routes\<rparr>)\<rparr>)"

definition updateSessionResourceTemplates ::
    "Server \<Rightarrow> string \<Rightarrow> (string \<rightharpoonup> resourceRoute) \<Rightarrow> Server" where
  "updateSessionResourceTemplates s sessionID routes =
     (case mcpState s sessionID of
        None \<Rightarrow> s
      | Some ss \<Rightarrow>
          s\<lparr>mcpState := (mcpState s)(sessionID \<mapsto> ss\<lparr>ResourceTemplates := routes\<rparr>)\<rparr>)"

definition resolvePromptRoute :: "mcpState \<Rightarrow> string \<Rightarrow> string \<Rightarrow> promptRoute option" where
  "resolvePromptRoute st sessionID name =
     (case (case st sessionID of None \<Rightarrow> None | Some ss \<Rightarrow> Prompts ss name) of
        Some r \<Rightarrow> Some r
      | None \<Rightarrow>
          (let parts = SplitN2 name ''__''
           in if length parts \<noteq> 2 then None
              else Some \<lparr>promptRoute.ServerName = parts ! 0, PromptName = parts ! 1\<rparr>))"

definition resolveResourceRoute :: "mcpState \<Rightarrow> string \<Rightarrow> string \<Rightarrow> resourceRoute option" where
  "resolveResourceRoute st sessionID uri =
     (case (case st sessionID of
              None \<Rightarrow> None
            | Some ss \<Rightarrow>
                (case Resources ss uri of
                   Some r \<Rightarrow> Some r
                 | None \<Rightarrow> ResourceTemplates ss uri)) of
        Some r \<Rightarrow> Some r
      | None \<Rightarrow> parseProxyResourceURI uri)"

subsection \<open>Forwarding\<close>

text \<open>
  \<^verbatim>\<open>callTool\<close>: the server is looked up first; only then are the arguments decoded
  (an absent or empty \<^verbatim>\<open>arguments\<close> stands for \<open>{}\<close>) and the call forwarded.
\<close>

definition callTool ::
    "lib \<Rightarrow> proxy_env \<Rightarrow> Server \<Rightarrow> string \<Rightarrow> string \<Rightarrow> string option \<Rightarrow> string + string option"
  where
  "callTool L P s serverName toolName args =
     (case registry s serverName of
        None \<Rightarrow> Inl (''server '' @ Quote L serverName @ '' not found'')
      | Some srv \<Rightarrow>
          (case (if length (bytes_of args) > 0 then unmarshal_any P (bytes_of args)
                 else Inr (JOther ''{}'')) of
             Inl e \<Rightarrow> Inl (''invalid tool arguments: '' @ e)
           | Inr parsedArgs \<Rightarrow>
               forwardMCP P serverName srv ''tools/call''
                 [(''name'', JString toolName), (''arguments'', parsedArgs)]))"

definition forwardPromptGet ::
    "lib \<Rightarrow> proxy_env \<Rightarrow> Server \<Rightarrow> string \<Rightarrow> jobject \<Rightarrow> string + string option" where
  "forwardPromptGet L P s serverName params =
     (case registry s serverName of
        None \<Rightarrow> Inl (''server '' @ Quote L serverName @ '' not found'')
      | Some srv \<Rightarrow> forwardMCP P serverName srv ''prompts/get'' params)"

definition forwardResourceRead ::
    "lib \<Rightarrow> proxy_env \<Rightarrow> Server \<Rightarrow> string \<Rightarrow> jobject \<Rightarrow> string + string option" where
  "forwardResourceRead L P s serverName params =
     (case registry s serverName of
        None \<Rightarrow> Inl (''server '' @ Quote L serverName @ '' not found'')
      | Some srv \<Rightarrow> forwardMCP P serverName srv ''resources/read'' params)"

subsection \<open>The handlers\<close>

definition emptySession :: mcpSession where
  "emptySession = \<lparr>mcpSession.Tools = Map.empty, Prompts = Map.empty, Resources = Map.empty,
                    ResourceTemplates = Map.empty\<rparr>"

definition handleMCPInitialize :: "proxy_env \<Rightarrow> Server \<Rightarrow> rpcReq \<Rightarrow> response \<times> Server" where
  "handleMCPInitialize P s req =
     (case newSessionID P of
        Inl e \<Rightarrow>
          (writeRPCError newResponse (rpcReq.ID req) (- 32603) ''failed to allocate session'', s)
      | Inr sessionID \<Rightarrow>
          (writeRPCResult P newResponse (rpcReq.ID req) InitializeResult sessionID,
           s\<lparr>mcpState := (mcpState s)(sessionID \<mapsto> emptySession)\<rparr>))"

definition handleMCPDelete :: "Server \<Rightarrow> request \<Rightarrow> response \<times> Server" where
  "handleMCPDelete s rq =
     (let sessionID = TrimSpace (sessionHeader rq)
      in if sessionID = [] then (httpError newResponse ''missing MCP-Session-Id'' 400, s)
         else (WriteHeader 204 newResponse, s\<lparr>mcpState := (mcpState s)(sessionID := None)\<rparr>))"

text \<open>
  The guard that opens every case of the switch but \<^verbatim>\<open>initialize\<close> and the default:
  \<^verbatim>\<open>sessionID == "" || !s.hasSession(sessionID)\<close>.
\<close>

definition noSession :: "Server \<Rightarrow> string \<Rightarrow> bool" where
  "noSession s sessionID = (sessionID = [] \<or> \<not> hasSession s sessionID)"

definition sessionError :: "rpcReq \<Rightarrow> response" where
  "sessionError req =
     writeRPCError newResponse (rpcReq.ID req) (- 32000) ''missing or invalid MCP session''"

text \<open>The case \<^verbatim>\<open>tools/call\<close> after the guard.\<close>

definition case_tools_call ::
    "lib \<Rightarrow> proxy_env \<Rightarrow> Server \<Rightarrow> rpcReq \<Rightarrow> string \<Rightarrow> response" where
  "case_tools_call L P s req sessionID =
     (case unmarshal_toolsCall P (bytes_of (Params req)) of
        Inl e \<Rightarrow> writeRPCError newResponse (rpcReq.ID req) (- 32602) ''invalid tools/call params''
      | Inr params \<Rightarrow>
          if toolsCallParams.Name params = []
          then writeRPCError newResponse (rpcReq.ID req) (- 32602) ''tools/call name is required''
          else (case resolveToolRoute (mcpState s) sessionID (toolsCallParams.Name params) of
                  None \<Rightarrow> writeRPCError newResponse (rpcReq.ID req) (- 32601) ''tool not found''
                | Some route \<Rightarrow>
                    (case callTool L P s (toolRoute.ServerName route) (ToolName route)
                            (Arguments params) of
                       Inl e \<Rightarrow> writeRPCError newResponse (rpcReq.ID req) (- 32000) e
                     | Inr result \<Rightarrow>
                         writeRawResult newResponse (rpcReq.ID req) result sessionID)))"

text \<open>The case \<^verbatim>\<open>prompts/get\<close> after the guard.\<close>

definition case_prompts_get ::
    "lib \<Rightarrow> proxy_env \<Rightarrow> Server \<Rightarrow> rpcReq \<Rightarrow> string \<Rightarrow> response" where
  "case_prompts_get L P s req sessionID =
     (case unmarshal_object P (bytes_of (Params req)) of
        Inl e \<Rightarrow> writeRPCError newResponse (rpcReq.ID req) (- 32602) ''invalid prompts/get params''
      | Inr params \<Rightarrow>
          if string_at params ''name'' = []
          then writeRPCError newResponse (rpcReq.ID req) (- 32602) ''prompts/get name is required''
          else (case resolvePromptRoute (mcpState s) sessionID (string_at params ''name'') of
                  None \<Rightarrow> writeRPCError newResponse (rpcReq.ID req) (- 32601) ''prompt not found''
                | Some route \<Rightarrow>
                    (case forwardPromptGet L P s (promptRoute.ServerName route)
                            (AList.update ''name'' (JString (PromptName route)) params) of
                       Inl e \<Rightarrow> writeRPCError newResponse (rpcReq.ID req) (- 32000) e
                     | Inr result \<Rightarrow>
                         writeRawResult newResponse (rpcReq.ID req) result sessionID)))"

text \<open>The case \<^verbatim>\<open>resources/read\<close> after the guard.\<close>

definition case_resources_read ::
    "lib \<Rightarrow> proxy_env \<Rightarrow> Server \<Rightarrow> rpcReq \<Rightarrow> string \<Rightarrow> response" where
  "case_resources_read L P s req sessionID =
     (case unmarshal_object P (bytes_of (Params req)) of
        Inl e \<Rightarrow>
          writeRPCError newResponse (rpcReq.ID req) (- 32602) ''invalid resources/read params''
      | Inr params \<Rightarrow>
          if string_at params ''uri'' = []
          then writeRPCError newResponse (rpcReq.ID req) (- 32602)
                 ''resources/read uri is required''
          else (case resolveResourceRoute (mcpState s) sessionID (string_at params ''uri'') of
                  None \<Rightarrow>
                    writeRPCError newResponse (rpcReq.ID req) (- 32601) ''resource not found''
                | Some route \<Rightarrow>
                    (case forwardResourceRead L P s (resourceRoute.ServerName route)
                            (AList.update ''uri'' (JString (OriginalURI route)) params) of
                       Inl e \<Rightarrow> writeRPCError newResponse (rpcReq.ID req) (- 32000) e
                     | Inr result \<Rightarrow>
                         writeRawResult newResponse (rpcReq.ID req) result sessionID)))"

text \<open>
  \<^verbatim>\<open>handleMCPProxy\<close>: the response and the server afterwards. The switch on the
  JSON-RPC method is a chain of comparisons, in the order of the source.
\<close>

definition handleMCPProxy ::
    "lib \<Rightarrow> proxy_env \<Rightarrow> Server \<Rightarrow> request \<Rightarrow> response \<times> Server" where
  "handleMCPProxy L P s rq =
     (if httpMethod rq = ''DELETE'' then handleMCPDelete s rq
      else if httpMethod rq \<noteq> ''POST''
      then (httpError newResponse ''method not allowed'' 405, s)
      else
        (case bodyDecode rq of
           Inl e \<Rightarrow> (httpError newResponse e 400, s)
         | Inr req0 \<Rightarrow>
             (let req = (if rpcReq.JSONRPC req0 = [] then req0\<lparr>rpcReq.JSONRPC := ''2.0''\<rparr>
                         else req0);
                  sessionID = TrimSpace (sessionHeader rq)
              in if Method req = ''initialize'' then handleMCPInitialize P s req
                 else if Method req = ''notifications/initialized''
                 then (if noSession s sessionID then (sessionError req, s)
                       else (WriteHeader 204
                               (setHeader ''MCP-Session-Id'' sessionID newResponse), s))
                 else if Method req = ''tools/list''
                 then (if noSession s sessionID then (sessionError req, s)
                       else (case aggregateTools P of
                               (tools, routes) \<Rightarrow>
                                 (writeRPCResult P newResponse (rpcReq.ID req)
                                    (ToolsListResult tools) sessionID,
                                  updateSessionTools s sessionID routes)))
                 else if Method req = ''tools/call''
                 then (if noSession s sessionID then (sessionError req, s)
                       else (case_tools_call L P s req sessionID, s))
                 else if Method req = ''prompts/list''
                 then (if noSession s sessionID then (sessionError req, s)
                       else (case aggregatePrompts P of
                               (items, routes) \<Rightarrow>
                                 (writeRPCResult P newResponse (rpcReq.ID req)
                                    (ListResult ''prompts'' items) sessionID,
                                  updateSessionPrompts s sessionID routes)))
                 else if Method req = ''prompts/get''
                 then (if noSession s sessionID then (sessionError req, s)
                       else (case_prompts_get L P s req sessionID, s))
                 else if Method req = ''resources/list''
                 then (if noSession s sessionID then (sessionError req, s)
                       else (case aggregateResources P of
                               (items, routes) \<Rightarrow>
                                 (writeRPCResult P newResponse (rpcReq.ID req)
                                    (ListResult ''resources'' items) sessionID,
                                  updateSessionResources s sessionID routes)))
                 else if Method req = ''resources/templates/list''
                 then (if noSession s sessionID then (sessionError req, s)
                       else (case aggregateResourceTemplates P of
                               (items, routes) \<Rightarrow>
                                 (writeRPCResult P newResponse (rpcReq.ID req)
                                    (ListResult ''resourceTemplates'' items) sessionID,
                                  updateSessionResourceTemplates s sessionID routes)))
                 else if Method req = ''resources/read''
                 then (if noSession s sessionID then (sessionError req, s)
                       else (case_resources_read L P s req sessionID, s))
                 else (writeRPCError newResponse (rpcReq.ID req) (- 32601)
                         ''method not found'', s))))"

text \<open>The status that the client receives: 200 if the handler wrote none.\<close>

definition sentStatus :: "response \<Rightarrow> int" where
  "sentStatus w = (if status w = 0 then 200 else status w)"

section \<open>Concrete inputs for the examples\<close>

text \<open>
  The examples below run the model on concrete JSON texts. What \<^verbatim>\<open>encoding/json\<close>
  makes of these texts is tabulated here; on any other text the tables report a syntax
  error, which is what the library does on the remaining texts of the examples (lines
  that start with \<open>data:\<close>).
\<close>

definition txt_init_result :: string where
  \<open>txt_init_result =
     ''{"protocolVersion":"2024-11-05","serverInfo":{"name":"echo","version":"0.1"}}''\<close>

definition txt_init :: string where
  \<open>txt_init = ''{"jsonrpc":"2.0","id":1,"result":'' @ txt_init_result @ ''}''\<close>

definition txt_tools_result :: string where
  \<open>txt_tools_result = ''{"tools":[{"name":"ping"}]}''\<close>

definition txt_tools :: string where
  \<open>txt_tools = ''{"jsonrpc":"2.0","id":2,"result":'' @ txt_tools_result @ ''}''\<close>

definition txt_call :: string where
  \<open>txt_call = ''{"jsonrpc":"2.0","id":2,"result":{"ok":true}}''\<close>

definition txt_batch :: string where
  "txt_batch = ''['' @ txt_init @ '','' @ txt_tools @ '']''"

definition txt_batch1 :: string where
  "txt_batch1 = ''['' @ txt_tools @ '']''"

definition resp_init :: rpcResp where
  "resp_init = \<lparr>rpcResp.JSONRPC = ''2.0'', ID = 1, Result = Some txt_init_result, Error = None\<rparr>"

definition resp_tools :: rpcResp where
  "resp_tools = \<lparr>rpcResp.JSONRPC = ''2.0'', ID = 2, Result = Some txt_tools_result, Error = None\<rparr>"

definition resp_call :: rpcResp where
  \<open>resp_call = \<lparr>rpcResp.JSONRPC = ''2.0'', ID = 2, Result = Some ''{"ok":true}'', Error = None\<rparr>\<close>

text \<open>
  Decoding an object sets the fields whose keys are present and leaves the others of the
  target as they are; decoding an array into a response is a type error and leaves the
  target untouched.
\<close>

definition sample_unmarshal_resp :: "string \<Rightarrow> rpcResp \<Rightarrow> string option \<times> rpcResp" where
  "sample_unmarshal_resp data v =
     (let d = TrimSpace data in
      if d = txt_init
      then (None, v\<lparr>rpcResp.JSONRPC := ''2.0'', rpcResp.ID := 1, Result := Some txt_init_result\<rparr>)
      else if d = txt_tools
      then (None, v\<lparr>rpcResp.JSONRPC := ''2.0'', rpcResp.ID := 2, Result := Some txt_tools_result\<rparr>)
      else if d = txt_call
      then (None, v\<lparr>rpcResp.JSONRPC := ''2.0'', rpcResp.ID := 2, Result := Result resp_call\<rparr>)
      else if d = ''[]'' \<or> d = txt_batch \<or> d = txt_batch1
      then (Some ''json: cannot unmarshal array into Go value of type rpcResp'', v)
      else (Some ''invalid character'', v))"

definition sample_unmarshal_batch :: "string \<Rightarrow> string option \<times> rpcResp list" where
  "sample_unmarshal_batch data =
     (let d = TrimSpace data in
      if d = ''[]'' then (None, [])
      else if d = txt_batch then (None, [resp_init, resp_tools])
      else if d = txt_batch1 then (None, [resp_tools])
      else if d = txt_init \<or> d = txt_tools \<or> d = txt_call
      then (Some ''json: cannot unmarshal object into Go value of type []rpcResp'', [])
      else (Some ''invalid character'', []))"

definition sample_unmarshal_init :: "string \<Rightarrow> mcpInitResult option" where
  "sample_unmarshal_init data =
     (if data = txt_init_result
      then Some \<lparr>mcpInitResult.ProtocolVersion = ''2024-11-05'',
                 ServerInfo = \<lparr>mcpServerInfoResp.Name = ''echo'', Version = ''0.1''\<rparr>\<rparr>
      else None)"

definition sample_unmarshal_tools :: "string \<Rightarrow> string + MCPTool list" where
  "sample_unmarshal_tools data =
     (if data = txt_tools_result
      then Inr [\<lparr>MCPTool.Name = ''ping'', Description = [], InputSchema = []\<rparr>]
      else Inl ''unexpected end of JSON input'')"

text \<open>
  \<^verbatim>\<open>%q\<close> on a string of letters, digits and underscores puts it between double
  quotes; \<^verbatim>\<open>EqualFold\<close> on ASCII strings compares them without regard to case.
\<close>

definition sample_Quote :: "string \<Rightarrow> string" where
  "sample_Quote s = [CHR 0x22] @ s @ [CHR 0x22]"

definition ascii_lower :: "char \<Rightarrow> char" where
  "ascii_lower c =
     (let n = (of_char c :: nat) in if 65 \<le> n \<and> n \<le> 90 then char_of (n + 32) else c)"

definition sample_EqualFold :: "string \<Rightarrow> string \<Rightarrow> bool" where
  "sample_EqualFold a b = (map ascii_lower a = map ascii_lower b)"

definition sample_lib :: lib where
  "sample_lib =
     \<lparr>unmarshal_resp = sample_unmarshal_resp, unmarshal_batch = sample_unmarshal_batch,
      unmarshal_init = sample_unmarshal_init, unmarshal_tools = sample_unmarshal_tools,
      Quote = sample_Quote, EqualFold = sample_EqualFold\<rparr>"

text \<open>
  The healthy stdio server of the specification's first scenario: the child answers
  \<^verbatim>\<open>initialize\<close> and \<^verbatim>\<open>tools/list\<close>, one line each. The HTTP exchanges are not used.
  The clock advances by a millisecond per reading.
\<close>

definition no_http :: http_run where
  "no_http = \<lparr>initExchange = SendError ''connection refused'',
              notifExchange = SendError ''connection refused'',
              toolsExchange = SendError ''connection refused''\<rparr>"

definition env_healthy :: check_env where
  "env_healthy =
     \<lparr>clock = (\<lambda>k. 1000000 * int k),
      stdio = \<lparr>stdinPipe = None, stdoutPipe = None, stderrPipe = None,
               startProcess = Inr 4242, writeInit = None,
               readInit = Inr (txt_init @ [CHR 0x0A]), writeTools = None,
               readTools = Inr (txt_tools @ [CHR 0x0A])\<rparr>,
      http = no_http\<rparr>"

text \<open>The same server, but the child exits before it answers \<^verbatim>\<open>tools/list\<close>.\<close>

definition env_tools_eof :: check_env where
  "env_tools_eof =
     \<lparr>clock = (\<lambda>k. 1000000 * int k),
      stdio = \<lparr>stdinPipe = None, stdoutPipe = None, stderrPipe = None,
               startProcess = Inr 4242, writeInit = None,
               readInit = Inr (txt_init @ [CHR 0x0A]), writeTools = None,
               readTools = Inl ''EOF''\<rparr>,
      http = no_http\<rparr>"

text \<open>A manager over a registry with the server \<open>echo\<close>, with one listener.\<close>

definition echo_manager :: Manager where
  "echo_manager = OnChange (New [''echo'' \<mapsto> echo_server] 30) 7"

text \<open>
  For the proxy: a request environment in which every forwarded call succeeds with the
  result \<open>{"ok":true}\<close>, and the parameters of two calls.
\<close>

definition txt_params_ghost :: string where
  \<open>txt_params_ghost = ''{"name":"ghost__do"}''\<close>

definition txt_params_abc :: string where
  \<open>txt_params_abc = ''{"name":"a__b__c"}''\<close>

definition sample_unmarshal_toolsCall :: "string \<Rightarrow> string + toolsCallParams" where
  "sample_unmarshal_toolsCall data =
     (if data = txt_params_ghost then Inr \<lparr>toolsCallParams.Name = ''ghost__do'', Arguments = None\<rparr>
      else if data = txt_params_abc then Inr \<lparr>toolsCallParams.Name = ''a__b__c'', Arguments = None\<rparr>
      else Inl ''unexpected end of JSON input'')"

definition sample_proxy_env :: proxy_env where
  \<open>sample_proxy_env =
     \<lparr>newSessionID = Inr ''000102030405060708090a0b0c0d0e0f'',
      marshal = (\<lambda>v. Inl ''not used''),
      unmarshal_toolsCall = sample_unmarshal_toolsCall,
      unmarshal_object = (\<lambda>data. Inl ''unexpected end of JSON input''),
      unmarshal_any = (\<lambda>data. Inl ''unexpected end of JSON input''),
      aggregateTools = ([], Map.empty),
      aggregatePrompts = ([], Map.empty),
      aggregateResources = ([], Map.empty),
      aggregateResourceTemplates = ([], Map.empty),
      forwardMCP = (\<lambda>serverName srv method params. Inr (Some ''{"ok":true}''))\<rparr>\<close>

text \<open>
  A proxy with one live session that has no routes yet, over an empty registry and over
  a registry with a server \<open>a\<close>.
\<close>

definition session_id :: string where
  "session_id = ''000102030405060708090a0b0c0d0e0f''"

definition proxy_empty :: Server where
  "proxy_empty = \<lparr>registry = Map.empty, mcpState = [session_id \<mapsto> emptySession]\<rparr>"

definition proxy_a :: Server where
  "proxy_a = \<lparr>registry = [''a'' \<mapsto> echo_server], mcpState = [session_id \<mapsto> emptySession]\<rparr>"

definition post :: "string \<Rightarrow> string option \<Rightarrow> string \<Rightarrow> request" where
  "post method params sid =
     \<lparr>httpMethod = ''POST'',
      bodyDecode = Inr \<lparr>rpcReq.JSONRPC = ''2.0'', ID = 7, Method = method, Params = params\<rparr>,
      sessionHeader = sid\<rparr>"

text \<open>The methods whose case in \<^verbatim>\<open>handleMCPProxy\<close> opens with the session guard.\<close>

definition session_methods :: "string list" where
  "session_methods =
     [''notifications/initialized'', ''tools/list'', ''tools/call'', ''prompts/list'',
      ''prompts/get'', ''resources/list'', ''resources/templates/list'', ''resources/read'']"

text \<open>The body of the specification's SSE scenario.\<close>

definition txt_sse :: string where
  "txt_sse = ''data: '' @ txt_call @ [CHR 0x0A, CHR 0x0A] @ ''data: [DONE]'' @ [CHR 0x0A]"

section \<open>Properties\<close>

subsection \<open>Library facts\<close>

lemma hextable_nth: "n < 16 \<Longrightarrow> fromHexChar (hextable ! n) = Some n"
proof -
  assume "n < 16"
  then consider "n = 0" | "n = 1" | "n = 2" | "n = 3" | "n = 4" | "n = 5" | "n = 6" | "n = 7"
    | "n = 8" | "n = 9" | "n = 10" | "n = 11" | "n = 12" | "n = 13" | "n = 14" | "n = 15"
    by atomize_elim arith
  then show ?thesis
    by cases (simp_all add: hextable_def fromHexChar_def)
qed

lemma hex_roundtrip: "DecodeString (EncodeToString s) = Some s"
proof (induction s)
  case Nil
  show ?case by simp
next
  case (Cons c cs)
  have "(of_char c :: nat) mod 256 = of_char c" by (rule of_char_mod_256)
  then have lt: "(of_char c :: nat) < 256" by (metis mod_less_divisor zero_less_numeral)
  have hi: "(of_char c :: nat) div 16 < 16" using lt by arith
  have lo: "(of_char c :: nat) mod 16 < 16" by simp
  have "char_of ((of_char c :: nat) div 16 * 16 + of_char c mod 16) = c" by simp
  then show ?case using Cons hextable_nth[OF hi] hextable_nth[OF lo] by simp
qed

lemma EncodeToString_Nil_iff: "EncodeToString s = [] \<longleftrightarrow> s = []"
  by (cases s) simp_all

lemma Index_slash:
  "CHR ''/'' \<notin> set n \<Longrightarrow> Index (n @ CHR ''/'' # e) ''/'' = Some (length n)"
  by (induction n) (auto simp add: HasPrefix_def)

text \<open>
  A name that contains no \<open>__\<close> and does not end in an underscore: then the first
  \<open>__\<close> of \<open>n @ ''__'' @ t\<close> is the one written between the two.
\<close>

lemma Index_sep2:
  "Index n ''__'' = None \<Longrightarrow> n = [] \<or> last n \<noteq> CHR ''_'' \<Longrightarrow>
   Index (n @ CHR ''_'' # CHR ''_'' # t) ''__'' = Some (length n)"
proof (induction n)
  case Nil
  show ?case by (simp add: HasPrefix_def)
next
  case (Cons c r)
  show ?case
  proof (cases r)
    case Nil
    with Cons.prems show ?thesis by (simp add: HasPrefix_def)
  next
    case (Cons d r')
    with Cons.prems Cons.IH show ?thesis by (simp add: HasPrefix_def split: if_splits)
  qed
qed

lemma SplitN2_sep2:
  "Index n ''__'' = None \<Longrightarrow> n = [] \<or> last n \<noteq> CHR ''_'' \<Longrightarrow>
   SplitN2 (n @ CHR ''_'' # CHR ''_'' # t) ''__'' = [n, t]"
  by (simp add: SplitN2_def Index_sep2)

text \<open>Whatever the name, a name with a \<open>__\<close> in it splits in two.\<close>

lemma Index_sep2_found: "\<exists>i. Index (n @ CHR ''_'' # CHR ''_'' # t) ''__'' = Some i"
  by (induction n) (simp_all add: HasPrefix_def)

subsection \<open>The URI codec\<close>

text \<open>
  Claim C2, as the code has it. For every original URI \<open>s\<close> that is not empty, every
  server name \<open>n\<close> that is not empty and contains no \<open>/\<close>, and every template flag
  \<open>t\<close>, parsing the proxy URI built from them succeeds and returns exactly
  \<open>(n, s, t)\<close>. (The parser requires both halves around the \<open>/\<close> to be non-empty, so
  an empty name or an empty URI does not come back.)
\<close>

theorem proxy_uri_roundtrip:
  assumes "n \<noteq> []" and "s \<noteq> []" and "CHR ''/'' \<notin> set n"
  shows "parseProxyResourceURI (buildProxyResourceURI n s t) =
           Some \<lparr>resourceRoute.ServerName = n, OriginalURI = s, TemplateMode = t\<rparr>"
proof (cases t)
  case True
  have p: "HasPrefix (proxyResourceTemplatePrefix @ n @ ''/'' @ EncodeToString s)
             proxyResourceTemplatePrefix"
    by (simp add: HasPrefix_def)
  show ?thesis using assms True p
    by (simp add: parseProxyResourceURI_def buildProxyResourceURI_def TrimPrefix_def SplitN2_def
        Index_slash hex_roundtrip EncodeToString_Nil_iff)
next
  case False
  have p: "HasPrefix (proxyResourcePrefix @ n @ ''/'' @ EncodeToString s) proxyResourcePrefix"
    by (simp add: HasPrefix_def)
  have q: "\<not> HasPrefix (proxyResourcePrefix @ n @ ''/'' @ EncodeToString s)
               proxyResourceTemplatePrefix"
    by (simp add: HasPrefix_def proxyResourcePrefix_def proxyResourceTemplatePrefix_def)
  show ?thesis using assms False p q
    by (simp add: parseProxyResourceURI_def buildProxyResourceURI_def TrimPrefix_def SplitN2_def
        Index_slash hex_roundtrip EncodeToString_Nil_iff)
qed

theorem proxy_uri_roundtrip_witness:
  "''fs'' \<noteq> [] \<and> ''file:///etc/hosts'' \<noteq> [] \<and> CHR ''/'' \<notin> set ''fs'' \<and>
   parseProxyResourceURI (buildProxyResourceURI ''fs'' ''file:///etc/hosts'' False) =
     Some \<lparr>resourceRoute.ServerName = ''fs'', OriginalURI = ''file:///etc/hosts'',
           TemplateMode = False\<rparr>"
  using proxy_uri_roundtrip [of "''fs''" "''file:///etc/hosts''" False] by simp

text \<open>
  The claim as written (every URI string) fails at the empty URI: the built URI ends in
  \<open>/\<close>, and the parser rejects an empty second half.
\<close>

theorem proxy_uri_roundtrip_counterexample:
  "CHR ''/'' \<notin> set ''fs'' \<and>
   buildProxyResourceURI ''fs'' '''' False = ''mcp-catalog://resource/fs/'' \<and>
   parseProxyResourceURI (buildProxyResourceURI ''fs'' '''' False) = None \<and>
   parseProxyResourceURI (buildProxyResourceURI ''fs'' '''' False) \<noteq>
     Some \<lparr>resourceRoute.ServerName = ''fs'', OriginalURI = '''', TemplateMode = False\<rparr>"
  by (simp add: parseProxyResourceURI_def buildProxyResourceURI_def TrimPrefix_def SplitN2_def
      HasPrefix_def proxyResourcePrefix_def proxyResourceTemplatePrefix_def)

subsection \<open>The naming convention\<close>

text \<open>
  Claim C3, as the code has it. With no session registered under the empty session id,
  for every server name \<open>n\<close> that contains no \<open>__\<close> and does not end in an underscore,
  and every tool name \<open>t\<close> (with or without \<open>__\<close> in it), resolving
  \<open>n @ ''__'' @ t\<close> yields the route \<open>(n, t)\<close>: the split is at the first \<open>__\<close> of the
  whole name.
\<close>

theorem resolveToolRoute_convention:
  assumes "st '''' = None"
    and "Index n ''__'' = None" and "n = [] \<or> last n \<noteq> CHR ''_''"
  shows "resolveToolRoute st '''' (n @ ''__'' @ t) =
           Some \<lparr>toolRoute.ServerName = n, ToolName = t\<rparr>"
  using assms by (simp add: resolveToolRoute_def SplitN2_sep2)

theorem resolveToolRoute_convention_witness:
  "(Map.empty :: mcpState) '''' = None \<and> Index ''srv'' ''__'' = None \<and>
   (''srv'' = [] \<or> last ''srv'' \<noteq> CHR ''_'') \<and>
   resolveToolRoute Map.empty '''' (''srv'' @ ''__'' @ ''do__it'') =
     Some \<lparr>toolRoute.ServerName = ''srv'', ToolName = ''do__it''\<rparr>"
  using resolveToolRoute_convention [of Map.empty "''srv''" "''do__it''"]
  by (simp add: HasPrefix_def)

text \<open>
  The claim as written (every server name) fails for a server name with \<open>__\<close> in it:
  the first \<open>__\<close> of the whole name lies inside the server name.
\<close>

theorem resolveToolRoute_convention_counterexample:
  "resolveToolRoute Map.empty '''' (''a__b'' @ ''__'' @ ''c'') =
     Some \<lparr>toolRoute.ServerName = ''a'', ToolName = ''b__c''\<rparr> \<and>
   resolveToolRoute Map.empty '''' (''a__b'' @ ''__'' @ ''c'') \<noteq>
     Some \<lparr>toolRoute.ServerName = ''a__b'', ToolName = ''c''\<rparr>"
  by (simp add: resolveToolRoute_def SplitN2_def HasPrefix_def)

subsection \<open>The log cap\<close>

lemma drop_cap_snoc:
  "drop (length (drop (length xs - k) xs @ [x]) - k) (drop (length xs - k) xs @ [x])
     = drop (length (xs @ [x]) - k) (xs @ [x])"
proof (cases "length xs < k")
  case True
  then show ?thesis by simp
next
  case False
  then have "Suc (length xs) - k = Suc (length xs - k)" by arith
  moreover have "Suc (length xs - (length xs - k)) - k = 1" using False by arith
  ultimately show ?thesis using False by (auto simp add: drop_Suc drop_tl)
qed

lemma Logs_addLog:
  "Logs (addLog info now level msg) =
     drop (length (Logs info @ [\<lparr>Time = now, Level = level, Message = msg\<rparr>]) - maxLogEntries)
          (Logs info @ [\<lparr>Time = now, Level = level, Message = msg\<rparr>])"
  by (simp add: addLog_def Let_def)

lemma addLogs_snoc:
  "addLogs info (es @ [e]) = addLog (addLogs info es) (Time e) (Level e) (Message e)"
  by (simp add: addLogs_def)

lemma Logs_addLogs:
  "length (Logs info) \<le> maxLogEntries \<Longrightarrow>
   Logs (addLogs info es) = drop (length (Logs info @ es) - maxLogEntries) (Logs info @ es)"
proof (induction es rule: rev_induct)
  case Nil
  then show ?case by (simp add: addLogs_def)
next
  case (snoc e es)
  have e: "\<lparr>Time = Time e, Level = Level e, Message = Message e\<rparr> = e" by simp
  have "Logs (addLogs info (es @ [e])) =
     drop (length (Logs (addLogs info es) @ [e]) - maxLogEntries) (Logs (addLogs info es) @ [e])"
    unfolding addLogs_snoc Logs_addLog e ..
  also have "\<dots> = drop (length ((Logs info @ es) @ [e]) - maxLogEntries) ((Logs info @ es) @ [e])"
    unfolding snoc.IH[OF snoc.prems] by (rule drop_cap_snoc)
  finally show ?case by simp
qed

text \<open>
  Claim C8. Starting from a record whose log holds at most 500 entries (a new record has
  none), after appending any sequence \<open>es\<close> of entries with \<^verbatim>\<open>addLog\<close>: the log holds at
  most 500 entries; if anything was appended, the entry appended last is the last of the
  log; and the log is a suffix of the old log followed by \<open>es\<close>, so only the oldest
  entries were dropped and the survivors keep their order.
\<close>

theorem addLog_cap:
  assumes "length (Logs info) \<le> maxLogEntries"
  shows "length (Logs (addLogs info es)) \<le> 500
       \<and> (es \<noteq> [] \<longrightarrow> last (Logs (addLogs info es)) = last es)
       \<and> Logs (addLogs info es) = drop (length (Logs info @ es) - 500) (Logs info @ es)"
proof -
  let ?all = "Logs info @ es"
  have L: "Logs (addLogs info es) = drop (length ?all - 500) ?all"
    using Logs_addLogs[OF assms, of es] by (simp add: maxLogEntries_def)
  have "length (drop (length ?all - 500) ?all) \<le> 500" by simp
  moreover have "es \<noteq> [] \<Longrightarrow> last (drop (length ?all - 500) ?all) = last es"
  proof -
    assume ne: "es \<noteq> []"
    then have "length ?all - 500 < length ?all" by (cases es) simp_all
    then have "last (drop (length ?all - 500) ?all) = last ?all" by (rule last_drop)
    then show ?thesis using ne by simp
  qed
  ultimately show ?thesis unfolding L by simp
qed

theorem addLog_cap_witness:
  "length (Logs echo_info) \<le> maxLogEntries \<and>
   [\<lparr>Time = 1, Level = ''info'', Message = ''a''\<rparr>,
    \<lparr>Time = 2, Level = ''warn'', Message = ''b''\<rparr>] \<noteq> [] \<and>
   length (Logs (addLogs echo_info
     [\<lparr>Time = 1, Level = ''info'', Message = ''a''\<rparr>,
      \<lparr>Time = 2, Level = ''warn'', Message = ''b''\<rparr>])) \<le> 500 \<and>
   last (Logs (addLogs echo_info
     [\<lparr>Time = 1, Level = ''info'', Message = ''a''\<rparr>,
      \<lparr>Time = 2, Level = ''warn'', Message = ''b''\<rparr>])) =
     \<lparr>Time = 2, Level = ''warn'', Message = ''b''\<rparr>"
  using addLog_cap [of echo_info "[\<lparr>Time = 1, Level = ''info'', Message = ''a''\<rparr>,
      \<lparr>Time = 2, Level = ''warn'', Message = ''b''\<rparr>]"]
  by (simp add: echo_info_def maxLogEntries_def)

subsection \<open>The registry's copies\<close>

lemma derefServer_alloc:
  "derefServer (x\<lparr>serverObjs := so, nextAddr := na\<rparr>) y = derefServer x y"
  by (simp add: derefServer_def cong: option.case_cong)

lemma readServer_eq:
  "readServer h s name =
     (case config s of
        None \<Rightarrow> Inl NilPointerDereference
      | Some c \<Rightarrow>
          (case configObjs h c of
             None \<Rightarrow> Inl NilPointerDereference
           | Some cfg \<Rightarrow>
               (case map_of (serverEntries h (MCPServers cfg)) name of
                  None \<Rightarrow> Inr None
                | Some None \<Rightarrow> Inl NilPointerDereference
                | Some (Some a) \<Rightarrow>
                    (case serverObjs h a of
                       None \<Rightarrow> Inl NilPointerDereference
                     | Some srv \<Rightarrow> Inr (Some (derefServer h srv))))))"
  by (simp add: readServer_def GetServer_def Let_def derefServer_alloc split: option.split)

lemma GetServer_SomeD:
  assumes "GetServer h s name = Inr (h1, Some p)"
  shows "p = nextAddr h \<and>
         (\<exists>srv. h1 = h\<lparr>serverObjs := (serverObjs h)(p \<mapsto> srv), nextAddr := p + 1\<rparr>)"
  using assms by (auto simp add: GetServer_def Let_def split: option.splits)

text \<open>
  What does hold: an assignment to the fields of the struct that \<^verbatim>\<open>GetServer\<close> returned
  changes nothing that the registry shows afterwards, for any server. The premise says
  that the allocator's next address is not yet in use in the registry's map.
\<close>

lemma GetServer_fields_isolated:
  assumes fresh: "\<forall>c cfg k. config s = Some c \<longrightarrow> configObjs h c = Some cfg \<longrightarrow>
                    (k, Some (nextAddr h)) \<notin> set (serverEntries h (MCPServers cfg))"
    and get: "GetServer h s name = Inr (h1, Some p)"
    and upd: "assign_fields h1 p f = Inr h2"
  shows "readServer h2 s name' = readServer h s name'"
proof -
  from GetServer_SomeD[OF get] obtain srv where
    p: "p = nextAddr h"
    and h1: "h1 = h\<lparr>serverObjs := (serverObjs h)(p \<mapsto> srv), nextAddr := p + 1\<rparr>"
    by blast
  from upd h1 have h2: "h2 = h\<lparr>serverObjs := (serverObjs h)(p \<mapsto> f srv), nextAddr := p + 1\<rparr>"
    by (auto simp add: assign_fields_def)
  have ent: "serverEntries h2 m = serverEntries h m" for m
    by (simp add: h2 serverEntries_def cong: option.case_cong)
  have cf: "configObjs h2 = configObjs h" by (simp add: h2)
  have d: "derefServer h2 y = derefServer h y" for y
    unfolding h2 by (rule derefServer_alloc)
  have so: "a \<noteq> p \<Longrightarrow> serverObjs h2 a = serverObjs h a" for a by (simp add: h2)
  show ?thesis
  proof (cases "config s")
    case None
    then show ?thesis by (simp add: readServer_eq)
  next
    case (Some c)
    note c = this
    show ?thesis
    proof (cases "configObjs h c")
      case None
      then show ?thesis using c by (simp add: readServer_eq cf)
    next
      case (Some cfg)
      note cfg = this
      show ?thesis
      proof (cases "map_of (serverEntries h (MCPServers cfg)) name'")
        case None
        then show ?thesis using c cfg by (simp add: readServer_eq cf ent)
      next
        case (Some v)
        show ?thesis
        proof (cases v)
          case None
          then show ?thesis using c cfg Some by (simp add: readServer_eq cf ent)
        next
          case (Some a)
          with \<open>map_of (serverEntries h (MCPServers cfg)) name' = Some v\<close>
          have m: "map_of (serverEntries h (MCPServers cfg)) name' = Some (Some a)" by simp
          then have "(name', Some a) \<in> set (serverEntries h (MCPServers cfg))"
            by (rule map_of_SomeD)
          with fresh c cfg p have "a \<noteq> p" by blast
          then show ?thesis using c cfg m
            by (simp add: readServer_eq cf ent so d cong: option.case_cong)
        qed
      qed
    qed
  qed
qed

text \<open>
  Claim C4 at a concrete registry: one server \<open>echo\<close> with arguments \<open>--port 1\<close> and
  environment \<open>K=v\<close>. The registry first shows the descriptor as loaded. A caller takes
  \<^verbatim>\<open>GetServer("echo")\<close> and assigns \<^verbatim>\<open>srv.Env["K"] = "changed"\<close>: the registry then
  shows \<open>K=changed\<close>. Another caller takes \<^verbatim>\<open>Get()\<close> and assigns
  \<^verbatim>\<open>cfg.MCPServers["echo"].Args[0] = "changed"\<close>: the registry then shows the changed
  argument. The copies are shallow: the struct is copied, its slice and its map are
  shared with the stored descriptor.
\<close>

theorem registry_copy_is_shallow:
  "readServer heap0 store0 ''echo'' =
     Inr (Some \<lparr>Type = '''', URL = '''', Command = ''echo-server'', Args = [''--port'', ''1''],
                Env = [(''K'', ''v'')], Enabled = True\<rparr>) \<and>
   (case GetServer heap0 store0 ''echo'' of
      Inr (h1, Some p) \<Rightarrow>
        (case assign_Env_entry h1 p ''K'' ''changed'' of
           Inr h2 \<Rightarrow>
             readServer h2 store0 ''echo'' =
               Inr (Some \<lparr>Type = '''', URL = '''', Command = ''echo-server'',
                          Args = [''--port'', ''1''], Env = [(''K'', ''changed'')],
                          Enabled = True\<rparr>)
         | Inl e \<Rightarrow> False)
    | _ \<Rightarrow> False) \<and>
   (case Get heap0 store0 of
      Inr (h1, c) \<Rightarrow>
        (case map_of (serverEntries h1
                (case configObjs h1 c of None \<Rightarrow> None | Some cfg \<Rightarrow> MCPServers cfg))
              ''echo'' of
           Some (Some p) \<Rightarrow>
             (case assign_Args_elem h1 p 0 ''changed'' of
                Inr h2 \<Rightarrow>
                  readAll h2 store0 =
                    Inr [(''echo'', Some \<lparr>Type = '''', URL = '''', Command = ''echo-server'',
                            Args = [''changed'', ''1''], Env = [(''K'', ''v'')],
                            Enabled = True\<rparr>)]
              | Inl e \<Rightarrow> False)
         | _ \<Rightarrow> False)
    | _ \<Rightarrow> False)"
  by (simp add: readServer_def readAll_def GetServer_def Get_def heap0_def store0_def
      serverEntries_def assign_Env_entry_def assign_Args_elem_def derefServer_def)

subsection \<open>Stopping the health loop\<close>

text \<open>
  Claim C5, as the code has it. On a manager whose stop channel is open (as \<^verbatim>\<open>New\<close>
  makes it), \<^verbatim>\<open>StopHealthLoop\<close> closes the channel and changes nothing else, so that
  the loop's receive becomes ready: termination is signalled. A further call does not
  signal again, and it is not a no-op either: closing the closed channel panics.
\<close>

theorem StopHealthLoop_once:
  assumes "stopHealth m = ChanOpen"
  shows "StopHealthLoop m = Inr (m\<lparr>stopHealth := ChanClosed\<rparr>) \<and>
         recv_ready (stopHealth (m\<lparr>stopHealth := ChanClosed\<rparr>)) \<and>
         StopHealthLoop (m\<lparr>stopHealth := ChanClosed\<rparr>) = Inl CloseOfClosedChannel"
  using assms by (simp add: StopHealthLoop_def close_chan_def recv_ready_def)

theorem StopHealthLoop_once_witness:
  "stopHealth (New Map.empty 30) = ChanOpen \<and>
   StopHealthLoop (New Map.empty 30) = Inr ((New Map.empty 30)\<lparr>stopHealth := ChanClosed\<rparr>) \<and>
   StopHealthLoop ((New Map.empty 30)\<lparr>stopHealth := ChanClosed\<rparr>) = Inl CloseOfClosedChannel"
  using StopHealthLoop_once [of "New Map.empty 30"] by (simp add: New_def)

text \<open>The claim as written (a second call is a safe no-op) fails on a new manager.\<close>

theorem StopHealthLoop_twice_counterexample:
  "(case StopHealthLoop (New Map.empty 30) of
      Inr m1 \<Rightarrow> StopHealthLoop m1 = Inl CloseOfClosedChannel \<and> StopHealthLoop m1 \<noteq> Inr m1
    | Inl e \<Rightarrow> False)"
  by (simp add: StopHealthLoop_def close_chan_def New_def)

subsection \<open>The response decoders\<close>

lemma add_eq: "add cs v = cs @ filter (\<lambda>v. \<not> blank v) [v]"
  by (simp add: add_def blank_def)

lemma add_all_eq: "add_all cs vs = cs @ filter (\<lambda>v. \<not> blank v) vs"
  by (induction vs arbitrary: cs) (simp_all add: add_eq)

lemma first_with_id_eq: "first_with_id cs n = find (\<lambda>c. rpcResp.ID c = n) cs"
  by (induction cs) simp_all

lemma sse_lines_eq:
  "sse_lines L cs ls =
     cs @ filter (\<lambda>v. \<not> blank v) (concat (map (spec_frame L)
       (filter (\<lambda>p. p \<noteq> [] \<and> p \<noteq> ''[DONE]'')
       (map (\<lambda>l. TrimSpace (TrimPrefix (TrimSpace l) ''data:''))
          (filter (\<lambda>l. HasPrefix (TrimSpace l) ''data:'') ls)))))"
proof (induction ls arbitrary: cs)
  case Nil
  show ?case by simp
next
  case (Cons l ls)
  show ?case
    by (simp add: Cons.IH Let_def add_eq add_all_eq spec_frame_def spec_array_def
        split: prod.split option.split)
qed

lemma sse_first_eq:
  "sse_first L resp ls =
     spec_first_object L resp
       (filter (\<lambda>p. p \<noteq> [] \<and> p \<noteq> ''[DONE]'')
       (map (\<lambda>l. TrimSpace (TrimPrefix (TrimSpace l) ''data:''))
          (filter (\<lambda>l. HasPrefix (TrimSpace l) ''data:'') ls)))"
proof (induction ls arbitrary: resp)
  case Nil
  show ?case by simp
next
  case (Cons l ls)
  show ?case
    by (simp add: Cons.IH Let_def split: prod.split option.split)
qed

lemma decodeProxyResponse_eq:
  "decodeProxyResponse L raw n =
     (if TrimSpace raw = [] then Inl ''empty response body''
      else if spec_candidates L (TrimSpace raw) = []
      then Inl (''unable to decode response: '' @ TrimSpace raw)
      else if 0 < n
      then (case find (\<lambda>c. rpcResp.ID c = n) (spec_candidates L (TrimSpace raw)) of
              Some c \<Rightarrow> Inr c
            | None \<Rightarrow> Inl (''response id='' @ itoa n @ '' not found''))
      else Inr (hd (spec_candidates L (TrimSpace raw))))"
proof -
  let ?data = "TrimSpace raw"
  have c: "sse_lines L
        (case unmarshal_batch L ?data of
           (None, arr) \<Rightarrow> add_all (case unmarshal_resp L ?data zeroResp of
                    (None, one) \<Rightarrow> add [] one
                  | (Some e, _) \<Rightarrow> []) arr
         | (Some e, _) \<Rightarrow> (case unmarshal_resp L ?data zeroResp of
                    (None, one) \<Rightarrow> add [] one
                  | (Some e, _) \<Rightarrow> []))
        (Split ?data (CHR 0x0A)) = spec_candidates L ?data"
    by (simp add: sse_lines_eq spec_candidates_def spec_payloads_def spec_object_def
        spec_array_def add_eq add_all_eq split: prod.split option.split)
  show ?thesis
    unfolding decodeProxyResponse_def Let_def c
    by (simp add: first_with_id_eq split: list.split)
qed

lemma decodeHTTPMCPResponse_eq:
  "decodeHTTPMCPResponse L raw =
     (if TrimSpace raw = [] then Inl ''empty response body''
      else if spec_object L (TrimSpace raw) \<noteq> [] \<and> \<not> blank (hd (spec_object L (TrimSpace raw)))
      then Inr (hd (spec_object L (TrimSpace raw)))
      else if spec_array L (TrimSpace raw) \<noteq> []
      then Inr (hd (spec_array L (TrimSpace raw)))
      else (case spec_first_object L (snd (unmarshal_resp L (TrimSpace raw) zeroResp))
                   (spec_payloads (TrimSpace raw)) of
              Some r \<Rightarrow> Inr r
            | None \<Rightarrow> Inl (''unable to decode MCP response: '' @ TrimSpace raw)))"
  by (auto simp add: decodeHTTPMCPResponse_def Let_def sse_first_eq spec_payloads_def
      spec_object_def spec_array_def blank_def split: prod.splits option.splits list.splits)

text \<open>
  Claim C1, as the code has it. \<^verbatim>\<open>decodeProxyResponse\<close> accepts the three shapes at
  once: its candidates are the body as one response, the body as a batch, and the
  payloads of the \<open>data:\<close> lines, each as one response or else as a batch (empty
  payloads and \<open>[DONE]\<close> are skipped), without the blank ones. An empty body gives the
  error \<open>empty response body\<close>. With no candidate at all the error is
  \<open>unable to decode response\<close>, whether or not an id was requested. Otherwise, for a
  requested id (greater than 0) the result is the first candidate with that id, or the
  error \<open>response id=N not found\<close> if there is none; with no id requested it is the
  first candidate.

  \<^verbatim>\<open>decodeHTTPMCPResponse\<close>, the health manager's decoder, takes no id. It returns the
  body as one response if that is not blank; else the first element of the body as a
  batch, whatever its id; else the first payload of a \<open>data:\<close> line that decodes as one
  response (a payload that is a batch is not accepted); else the error
  \<open>unable to decode MCP response\<close>.
\<close>

theorem response_decoders:
  "decodeProxyResponse L raw n =
     (if TrimSpace raw = [] then Inl ''empty response body''
      else if spec_candidates L (TrimSpace raw) = []
      then Inl (''unable to decode response: '' @ TrimSpace raw)
      else if 0 < n
      then (case find (\<lambda>c. rpcResp.ID c = n) (spec_candidates L (TrimSpace raw)) of
              Some c \<Rightarrow> Inr c
            | None \<Rightarrow> Inl (''response id='' @ itoa n @ '' not found''))
      else Inr (hd (spec_candidates L (TrimSpace raw)))) \<and>
   decodeHTTPMCPResponse L raw =
     (if TrimSpace raw = [] then Inl ''empty response body''
      else if spec_object L (TrimSpace raw) \<noteq> [] \<and> \<not> blank (hd (spec_object L (TrimSpace raw)))
      then Inr (hd (spec_object L (TrimSpace raw)))
      else if spec_array L (TrimSpace raw) \<noteq> []
      then Inr (hd (spec_array L (TrimSpace raw)))
      else (case spec_first_object L (snd (unmarshal_resp L (TrimSpace raw) zeroResp))
                   (spec_payloads (TrimSpace raw)) of
              Some r \<Rightarrow> Inr r
            | None \<Rightarrow> Inl (''unable to decode MCP response: '' @ TrimSpace raw)))"
  by (rule conjI [OF decodeProxyResponse_eq decodeHTTPMCPResponse_eq])

lemmas text_defs = txt_init_result_def txt_init_def txt_tools_result_def txt_tools_def
  txt_call_def txt_batch_def txt_batch1_def resp_init_def resp_tools_def resp_call_def
  txt_params_ghost_def txt_params_abc_def txt_sse_def

lemmas sample_lib_defs = sample_lib_def sample_unmarshal_resp_def sample_unmarshal_batch_def
  sample_unmarshal_init_def sample_unmarshal_tools_def sample_Quote_def sample_EqualFold_def
  ascii_lower_def TrimSpace_def space1_def space2_def space3_def HasPrefix_def TrimPrefix_def
  zeroResp_def bytes_of_def itoa_def

lemmas spec_defs = spec_candidates_def spec_object_def spec_array_def spec_frame_def
  spec_payloads_def blank_def

text \<open>
  The fourth scenario of the specification: the body is an SSE stream with one response
  and the sentinel. Both decoders return the response.
\<close>

theorem response_decoders_witness:
  "decodeProxyResponse sample_lib txt_sse 2 = Inr resp_call \<and>
   decodeHTTPMCPResponse sample_lib txt_sse = Inr resp_call"
  using response_decoders [of sample_lib txt_sse 2]
  by (simp add: spec_defs sample_lib_defs text_defs)

text \<open>
  The claim as written fails in three places. A stream that holds only the sentinel has
  no candidate, and the proxy's decoder, asked for id 2, answers
  \<open>unable to decode response\<close> and not \<open>response id=2 not found\<close>. For a batch of the
  responses 1 and 2 the health manager's decoder returns the response with id 1 (the
  proxy's decoder, asked for id 2, finds it). And the health manager's decoder rejects a
  frame that carries a batch, which the proxy's decoder accepts.
\<close>

theorem response_decoders_counterexample:
  "decodeProxyResponse sample_lib ''data: [DONE]'' 2 =
     Inl ''unable to decode response: data: [DONE]'' \<and>
   decodeProxyResponse sample_lib ''data: [DONE]'' 2 \<noteq> Inl ''response id=2 not found'' \<and>
   decodeProxyResponse sample_lib txt_batch 2 = Inr resp_tools \<and>
   decodeHTTPMCPResponse sample_lib txt_batch = Inr resp_init \<and>
   rpcResp.ID resp_init = 1 \<and>
   decodeProxyResponse sample_lib (''data: '' @ txt_batch1) 2 = Inr resp_tools \<and>
   decodeHTTPMCPResponse sample_lib (''data: '' @ txt_batch1) =
     Inl (''unable to decode MCP response: data: '' @ txt_batch1)"
  by (simp add: decodeProxyResponse_def decodeHTTPMCPResponse_def add_def Let_def
      sample_lib_defs text_defs)

subsection \<open>The health check\<close>

lemma Logs_addLog_ne: "Logs (addLog info t l m) \<noteq> []"
  by (simp add: addLog_def Let_def maxLogEntries_def)

lemma last_Logs_addLog: "last (Logs (addLog info t l m)) = \<lparr>Time = t, Level = l, Message = m\<rparr>"
  by (simp add: addLog_def Let_def maxLogEntries_def)

lemma prev_in_Logs_addLog:
  assumes "Logs info \<noteq> []"
  shows "last (Logs info) \<in> set (Logs (addLog info t l m))"
proof -
  let ?xs = "Logs info" and ?e = "\<lparr>Time = t, Level = l, Message = m\<rparr>"
  let ?k = "length (?xs @ [?e]) - maxLogEntries"
  have L: "Logs (addLog info t l m) = drop ?k (?xs @ [?e])"
    by (simp add: addLog_def Let_def)
  have k: "?k \<le> length ?xs - 1" using assms by (cases ?xs) (simp_all add: maxLogEntries_def)
  have "last ?xs \<in> set (drop (length ?xs - 1) (?xs @ [?e]))"
    using assms by (cases ?xs rule: rev_cases) simp_all
  moreover have "set (drop (length ?xs - 1) (?xs @ [?e])) \<subseteq> set (drop ?k (?xs @ [?e]))"
    using k by (rule set_drop_subset_set_drop)
  ultimately show ?thesis unfolding L by blast
qed

lemma warned_last_logr: "warned_last (logr E ''warn'' msg r)"
  by (simp add: warned_last_def logr_def Logs_addLog_ne last_Logs_addLog)

lemma warned_last_warned: "warned_last r \<Longrightarrow> warned r"
  unfolding warned_last_def warned_def by (metis last_in_set)

lemma warned_after: 
  assumes "warned_last r" and "Logs (rinfo r') = Logs (rinfo r)"
  shows "warned (logr E l msg r')"
proof -
  from assms have ne: "Logs (rinfo r') \<noteq> []" and lv: "Level (last (Logs (rinfo r'))) = ''warn''"
    by (simp_all add: warned_last_def)
  have "last (Logs (rinfo r')) \<in> set (Logs (rinfo (logr E l msg r')))"
    using prev_in_Logs_addLog[OF ne] by (simp add: logr_def)
  with lv show ?thesis unfolding warned_def by blast
qed

lemma Logs_setDuration: "Logs (rinfo (setDuration E s r)) = Logs (rinfo r)"
  by (simp add: setDuration_def)

lemma recordTools_fails: "tools_undecodable L resp \<Longrightarrow> warned_last (recordTools L E resp r)"
  by (auto simp add: tools_undecodable_def recordTools_def warned_last_logr split: sum.splits)


lemma doCheck_tools_nil: "fst (doCheck_tools L E st r) = None"
  by (simp add: doCheck_tools_def Let_def split: option.split sum.split prod.split)

lemma tail_warned: "warned_last r3 \<Longrightarrow> warned (logr E l msg (setDuration E st r3))"
  by (rule warned_after[where r = r3]) (simp_all add: Logs_setDuration)

lemma warned_logr: "warned (logr E ''warn'' msg r)"
  by (rule warned_last_warned) (rule warned_last_logr)

lemma doCheck_tools_warned:
  assumes "case writeTools (stdio E) of
              Some e \<Rightarrow> True
            | None \<Rightarrow>
                (case readTools (stdio E) of
                   Inl e \<Rightarrow> True
                 | Inr line \<Rightarrow>
                     (case unmarshal_resp L line zeroResp of
                        (Some e, _) \<Rightarrow> True
                      | (None, toolsResp) \<Rightarrow>
                          (case rpcResp.Error toolsResp of
                             Some er \<Rightarrow> True
                           | None \<Rightarrow> tools_undecodable L toolsResp)))"
  shows "warned (snd (doCheck_tools L E st r))"
  using assms
  by (auto simp add: doCheck_tools_def Let_def split: option.splits sum.splits prod.splits
      intro!: tail_warned warned_logr warned_last_logr recordTools_fails)

lemma doCheck_started_ok:
  assumes "case startProcess (stdio E) of Inl e \<Rightarrow> False | Inr pid \<Rightarrow> True"
    and "writeInit (stdio E) = None"
    and "case readInit (stdio E) of
              Inl e \<Rightarrow> False
            | Inr line \<Rightarrow>
                (case unmarshal_resp L line zeroResp of
                   (Some e, _) \<Rightarrow> False
                 | (None, initResp) \<Rightarrow> rpcResp.Error initResp = None)"
  shows "\<exists>st r'. doCheck_started L E r = doCheck_tools L E st r'"
  using assms
  by (auto simp add: doCheck_started_def Let_def split: sum.splits option.splits prod.splits)

lemma doCheck_http_ok:
  assumes "URL srv \<noteq> []"
    and "case send_expect L (initExchange (http E)) of
              Inl e \<Rightarrow> False
            | Inr initResp \<Rightarrow> rpcResp.Error initResp = None"
    and "case send_expect L (toolsExchange (http E)) of
              Inl e \<Rightarrow> True
            | Inr toolsResp \<Rightarrow>
                (case rpcResp.Error toolsResp of
                   Some er \<Rightarrow> True
                 | None \<Rightarrow> tools_undecodable L toolsResp)"
  shows "fst (doCheckStreamableHTTP L E srv r) = None \<and> warned (snd (doCheckStreamableHTTP L E srv r))"
  using assms
  by (auto simp add: doCheckStreamableHTTP_def Let_def split: option.splits sum.splits
      intro!: tail_warned warned_logr warned_last_logr recordTools_fails)

lemma doCheck_tools_failure:
  assumes "init_succeeds L E srv" and "tools_list_fails L E srv"
  shows "fst (doCheck L E srv r) = None \<and> warned (snd (doCheck L E srv r))"
proof (cases "isStreamableHTTPServer L srv")
  case True
  with assms show ?thesis
    by (simp add: doCheck_def init_succeeds_def tools_list_fails_def doCheck_http_ok)
next
  case False
  with assms obtain st r' where "doCheck L E srv r = doCheck_tools L E st r'"
    using doCheck_started_ok[of E L r]
    by (auto simp add: doCheck_def init_succeeds_def)
  with assms False show ?thesis
    by (simp add: tools_list_fails_def doCheck_tools_nil doCheck_tools_warned)
qed


lemma Status_logr: "Status (rinfo (logr E l msg r)) = Status (rinfo r)"
  by (simp add: logr_def addLog_def Let_def)

lemma Status_setDuration: "Status (rinfo (setDuration E st r)) = Status (rinfo r)"
  by (simp add: setDuration_def)

lemma Status_recordInit: "Status (rinfo (recordInit L E resp r)) = Status (rinfo r)"
  by (simp add: recordInit_def Let_def Status_logr split: option.split)

lemma Status_recordTools: "Status (rinfo (recordTools L E resp r)) = Status (rinfo r)"
  by (simp add: recordTools_def Status_logr split: sum.split)

lemma Status_doCheck_tools: "Status (rinfo (snd (doCheck_tools L E st r))) = Status (rinfo r)"
  by (simp add: doCheck_tools_def Let_def Status_logr Status_setDuration Status_recordTools
      split: option.split sum.split prod.split)

lemma Status_doCheck_started: "Status (rinfo (snd (doCheck_started L E r))) = Status (rinfo r)"
  by (simp add: doCheck_started_def Let_def Status_logr Status_setDuration Status_recordInit
      Status_doCheck_tools split: option.split sum.split prod.split)

lemma Status_doCheckStreamableHTTP:
  "Status (rinfo (snd (doCheckStreamableHTTP L E srv r))) = Status (rinfo r)"
  by (simp add: doCheckStreamableHTTP_def Let_def Status_logr Status_setDuration
      Status_recordInit Status_recordTools split: option.split sum.split prod.split)

lemma Status_doCheck: "Status (rinfo (snd (doCheck L E srv r))) = Status (rinfo r)"
  by (simp add: doCheck_def Status_logr Status_doCheck_started Status_doCheckStreamableHTTP
      split: option.split)

lemma getOrCreateInfo_known:
  assumes "store m name = Some srv"
  shows "\<exists>m1 info. getOrCreateInfo m name = (m1, Some info) \<and> listeners m1 = listeners m"
  using assms by (simp add: getOrCreateInfo_def Let_def split: option.split)

lemma Check_known:
  assumes "store m name = Some srv"
  shows "\<exists>m1 info. getOrCreateInfo m name = (m1, Some info) \<and>
           Check L E m name =
             (fst (doCheck L E srv (check_begin L E srv info)),
              m1\<lparr>servers := (servers m1)(name \<mapsto>
                   check_end E (fst (doCheck L E srv (check_begin L E srv info)))
                     (snd (doCheck L E srv (check_begin L E srv info))))\<rparr>,
              notify m name (rinfo (check_begin L E srv info)) @
              notify m name (check_end E (fst (doCheck L E srv (check_begin L E srv info)))
                     (snd (doCheck L E srv (check_begin L E srv info)))))"
proof -
  from getOrCreateInfo_known[OF assms] obtain m1 info where
    g: "getOrCreateInfo m name = (m1, Some info)" and l: "listeners m1 = listeners m" by blast
  have n: "notify m1 name x = notify m name x" for x by (simp add: notify_def l)
  have "Check L E m name =
             (fst (doCheck L E srv (check_begin L E srv info)),
              m1\<lparr>servers := (servers m1)(name \<mapsto>
                   check_end E (fst (doCheck L E srv (check_begin L E srv info)))
                     (snd (doCheck L E srv (check_begin L E srv info))))\<rparr>,
              notify m name (rinfo (check_begin L E srv info)) @
              notify m name (check_end E (fst (doCheck L E srv (check_begin L E srv info)))
                     (snd (doCheck L E srv (check_begin L E srv info)))))"
    unfolding Check_def
    using assms g by (simp add: Let_def n split: prod.split option.split)
  with g show ?thesis by blast
qed

text \<open>
  Claim C6. For every check of a server that the registry knows, over stdio or over
  HTTP: if the handshake succeeds and the \<^verbatim>\<open>tools/list\<close> step fails (the request is not
  sent, the response is not read or not decoded, it carries an error, or its result is
  not a tool list), then \<^verbatim>\<open>Check\<close> returns no error, the stored record is healthy with
  an empty error message, and its log holds an entry of level \<open>warn\<close>.
\<close>

theorem Check_tools_failure_is_healthy:
  assumes "store m name = Some srv" and "init_succeeds L E srv" and "tools_list_fails L E srv"
  shows "fst (Check L E m name) = None \<and>
         (case servers (fst (snd (Check L E m name))) name of
            None \<Rightarrow> False
          | Some info' \<Rightarrow>
              Status info' = StatusHealthy \<and> Error info' = [] \<and>
              (\<exists>e \<in> set (Logs info'). Level e = ''warn''))"
proof -
  from Check_known[OF assms(1), of L E] obtain m1 info where
    c: "Check L E m name =
             (fst (doCheck L E srv (check_begin L E srv info)),
              m1\<lparr>servers := (servers m1)(name \<mapsto>
                   check_end E (fst (doCheck L E srv (check_begin L E srv info)))
                     (snd (doCheck L E srv (check_begin L E srv info))))\<rparr>,
              notify m name (rinfo (check_begin L E srv info)) @
              notify m name (check_end E (fst (doCheck L E srv (check_begin L E srv info)))
                     (snd (doCheck L E srv (check_begin L E srv info)))))"
    by blast
  from doCheck_tools_failure[OF assms(2,3), of "check_begin L E srv info"]
  have e: "fst (doCheck L E srv (check_begin L E srv info)) = None"
    and w: "warned (snd (doCheck L E srv (check_begin L E srv info)))" by simp_all
  show ?thesis using w unfolding c e by (simp add: check_end_def warned_def)
qed

text \<open>
  Claim C7. For every check of a server that the registry knows: \<^verbatim>\<open>Check\<close> starts the
  listeners' goroutines exactly twice, first all of them with the record in status
  \<open>checking\<close>, then all of them with the final record, which is the one stored; the final
  status is \<open>healthy\<close> with an empty error message when \<^verbatim>\<open>doCheck\<close> returns nil, and
  \<open>error\<close> with the message of the error otherwise; and \<^verbatim>\<open>doCheck\<close>, which runs between
  the two, never changes the status.
\<close>

theorem Check_transitions:
  assumes "store m name = Some srv"
  shows "\<exists>err m' info1 info2.
           Check L E m name =
             (err, m', map (\<lambda>fn. (fn, name, info1)) (listeners m) @
                       map (\<lambda>fn. (fn, name, info2)) (listeners m)) \<and>
           Status info1 = StatusChecking \<and>
           servers m' name = Some info2 \<and>
           (case err of
              None \<Rightarrow> Status info2 = StatusHealthy \<and> Error info2 = []
            | Some e \<Rightarrow> Status info2 = StatusError \<and> Error info2 = e) \<and>
           (\<forall>r. Status (rinfo (snd (doCheck L E srv r))) = Status (rinfo r))"
proof -
  from Check_known[OF assms(1), of L E] obtain m1 info where
    c: "Check L E m name =
             (fst (doCheck L E srv (check_begin L E srv info)),
              m1\<lparr>servers := (servers m1)(name \<mapsto>
                   check_end E (fst (doCheck L E srv (check_begin L E srv info)))
                     (snd (doCheck L E srv (check_begin L E srv info))))\<rparr>,
              notify m name (rinfo (check_begin L E srv info)) @
              notify m name (check_end E (fst (doCheck L E srv (check_begin L E srv info)))
                     (snd (doCheck L E srv (check_begin L E srv info)))))"
    by blast
  have s1: "Status (rinfo (check_begin L E srv info)) = StatusChecking"
    by (simp add: check_begin_def Status_logr)
  have s2: "case err of
              None \<Rightarrow> Status (check_end E err r2) = StatusHealthy \<and> Error (check_end E err r2) = []
            | Some e \<Rightarrow> Status (check_end E err r2) = StatusError \<and> Error (check_end E err r2) = e" for err r2
    by (simp add: check_end_def split: option.split)
  show ?thesis
    unfolding c notify_def
    using s1 s2 Status_doCheck by (intro exI conjI) (rule refl, auto)
qed

subsection \<open>The proxy's session guard and its routing of tool calls\<close>

lemma sessionError_eq:
  "sessionError req =
     \<lparr>status = 200, header = [(''Content-Type'', ''application/json'')],
      body = [Envelope \<lparr>rpcResp.JSONRPC = ''2.0'', ID = rpcReq.ID req, Result = None,
                         Error = Some \<lparr>Code = - 32000,
                                       Message = ''missing or invalid MCP session''\<rparr>\<rparr>]\<rparr>"
  by (simp add: sessionError_def writeRPCError_def Write_def WriteHeader_def setHeader_def
      newResponse_def Let_def)

lemma writeRPCError_eq:
  "writeRPCError newResponse i code msg =
     \<lparr>status = 200, header = [(''Content-Type'', ''application/json'')],
      body = [Envelope \<lparr>rpcResp.JSONRPC = ''2.0'', ID = i, Result = None,
                         Error = Some \<lparr>Code = code, Message = msg\<rparr>\<rparr>]\<rparr>"
  by (simp add: writeRPCError_def Write_def WriteHeader_def setHeader_def
      newResponse_def Let_def)

lemma guarded_method:
  assumes "httpMethod rq = ''POST''" and "bodyDecode rq = Inr req"
    and "Method req \<in> set session_methods"
    and "noSession s (TrimSpace (sessionHeader rq))"
  shows "handleMCPProxy L P s rq = (sessionError req, s)"
proof -
  let ?req = "(if rpcReq.JSONRPC req = [] then req\<lparr>rpcReq.JSONRPC := ''2.0''\<rparr> else req)"
  have m: "Method ?req = Method req" and i: "sessionError ?req = sessionError req"
    by (simp_all add: sessionError_def)
  from assms(3) consider
      "Method req = ''notifications/initialized''" | "Method req = ''tools/list''"
    | "Method req = ''tools/call''" | "Method req = ''prompts/list''"
    | "Method req = ''prompts/get''" | "Method req = ''resources/list''"
    | "Method req = ''resources/templates/list''" | "Method req = ''resources/read''"
    by (auto simp add: session_methods_def)
  then show ?thesis
    using assms(1,2,4)
    by cases (simp_all add: handleMCPProxy_def Let_def m i)
qed

text \<open>
  Claim C9, as the code has it. For every POST whose body decodes to a JSON-RPC request
  with one of the eight methods that need a session, and whose \<^verbatim>\<open>MCP-Session-Id\<close>
  header is, after trimming, empty or not the id of a live session: the proxy answers the
  JSON-RPC error -32000 \<open>missing or invalid MCP session\<close> with the id of the request, as
  \<^verbatim>\<open>application/json\<close>, and changes nothing. The HTTP status is 200:
  \<^verbatim>\<open>writeRPCError\<close> sets no status, and the first write sends 200.
\<close>

theorem session_guard:
  assumes "httpMethod rq = ''POST''" and "bodyDecode rq = Inr req"
    and "Method req \<in> set session_methods"
    and "noSession s (TrimSpace (sessionHeader rq))"
  shows "handleMCPProxy L P s rq =
           (\<lparr>status = 200, header = [(''Content-Type'', ''application/json'')],
             body = [Envelope \<lparr>rpcResp.JSONRPC = ''2.0'', ID = rpcReq.ID req, Result = None,
                         Error = Some \<lparr>Code = - 32000,
                                       Message = ''missing or invalid MCP session''\<rparr>\<rparr>]\<rparr>, s)
         \<and> sentStatus (fst (handleMCPProxy L P s rq)) = 200"
  unfolding guarded_method[OF assms] sessionError_eq by (simp add: sentStatus_def)

lemma resolveToolRoute_fallback:
  assumes "(case st sid of None \<Rightarrow> None | Some ss \<Rightarrow> mcpSession.Tools ss name) = None"
    and "Index name ''__'' = Some i"
  shows "resolveToolRoute st sid name =
           Some \<lparr>toolRoute.ServerName = take i name, ToolName = drop (i + 2) name\<rparr>"
  using assms by (simp add: resolveToolRoute_def SplitN2_def)

text \<open>
  Claim C10, as the code has it. Take a POST of \<^verbatim>\<open>tools/call\<close> in a live session,
  whose name is \<open>n @ ''__'' @ t\<close> and has no route in the session. Then the name resolves
  to a route by the split at its first \<open>__\<close>, so the answer is never -32601
  \<open>tool not found\<close>. The route is \<open>(n, t)\<close> when \<open>n\<close> contains no \<open>__\<close> and does not end
  in an underscore. When the server of the route is not in the registry, \<^verbatim>\<open>callTool\<close>
  fails before anything is forwarded, and the answer is the JSON-RPC error -32000 with
  the message \<open>server "..." not found\<close> that names the server of the route.
\<close>

theorem unknown_server_call:
  assumes post: "httpMethod rq = ''POST''" and dec: "bodyDecode rq = Inr req"
    and meth: "Method req = ''tools/call''"
    and live: "\<not> noSession s (TrimSpace (sessionHeader rq))"
    and params: "unmarshal_toolsCall P (bytes_of (Params req)) = Inr params"
    and name: "toolsCallParams.Name params = n @ ''__'' @ t"
    and noroute: "(case mcpState s (TrimSpace (sessionHeader rq)) of
                     None \<Rightarrow> None
                   | Some ss \<Rightarrow> mcpSession.Tools ss (n @ ''__'' @ t)) = None"
  shows "\<exists>route.
           resolveToolRoute (mcpState s) (TrimSpace (sessionHeader rq)) (n @ ''__'' @ t) = Some route \<and>
           (Index n ''__'' = None \<and> (n = [] \<or> last n \<noteq> CHR ''_'') \<longrightarrow>
              route = \<lparr>toolRoute.ServerName = n, ToolName = t\<rparr>) \<and>
           (registry s (toolRoute.ServerName route) = None \<longrightarrow>
              callTool L P s (toolRoute.ServerName route) (ToolName route) (Arguments params) =
                Inl (''server '' @ Quote L (toolRoute.ServerName route) @ '' not found'') \<and>
              handleMCPProxy L P s rq =
                (\<lparr>status = 200, header = [(''Content-Type'', ''application/json'')],
                  body = [Envelope \<lparr>rpcResp.JSONRPC = ''2.0'', ID = rpcReq.ID req, Result = None,
                            Error = Some \<lparr>Code = - 32000,
                              Message = ''server '' @ Quote L (toolRoute.ServerName route)
                                          @ '' not found''\<rparr>\<rparr>]\<rparr>, s))"
proof -
  define sid where "sid = TrimSpace (sessionHeader rq)"
  define nm where "nm = n @ ''__'' @ t"
  have nm': "nm = n @ CHR ''_'' # CHR ''_'' # t" by (simp add: nm_def)
  from Index_sep2_found[of n t] obtain i where i: "Index nm ''__'' = Some i"
    unfolding nm' by blast
  define route where
    "route = \<lparr>toolRoute.ServerName = take i nm, ToolName = drop (i + 2) nm\<rparr>"
  have nr: "(case mcpState s sid of None \<Rightarrow> None | Some ss \<Rightarrow> mcpSession.Tools ss nm) = None"
    using noroute by (simp only: sid_def nm_def)
  have r: "resolveToolRoute (mcpState s) sid nm = Some route"
    unfolding route_def using nr i by (rule resolveToolRoute_fallback)
  have a: "Index n ''__'' = None \<and> (n = [] \<or> last n \<noteq> CHR ''_'') \<longrightarrow>
              route = \<lparr>toolRoute.ServerName = n, ToolName = t\<rparr>"
  proof
    assume c: "Index n ''__'' = None \<and> (n = [] \<or> last n \<noteq> CHR ''_'')"
    then have "Index nm ''__'' = Some (length n)" unfolding nm' by (simp add: Index_sep2)
    with i have "i = length n" by simp
    then show "route = \<lparr>toolRoute.ServerName = n, ToolName = t\<rparr>"
      by (simp add: route_def nm')
  qed
  have ne: "nm \<noteq> []" by (simp add: nm')
  define req' where
    "req' = (if rpcReq.JSONRPC req = [] then req\<lparr>rpcReq.JSONRPC := ''2.0''\<rparr> else req)"
  have q: "Method req' = ''tools/call''" "rpcReq.ID req' = rpcReq.ID req" "Params req' = Params req"
    using meth by (simp_all add: req'_def)
  have h: "handleMCPProxy L P s rq = (case_tools_call L P s req' sid, s)"
    using post dec live q(1) by (simp add: handleMCPProxy_def Let_def sid_def req'_def)
  have b: "registry s (toolRoute.ServerName route) = None \<longrightarrow>
              callTool L P s (toolRoute.ServerName route) (ToolName route) (Arguments params) =
                Inl (''server '' @ Quote L (toolRoute.ServerName route) @ '' not found'') \<and>
              handleMCPProxy L P s rq =
                (\<lparr>status = 200, header = [(''Content-Type'', ''application/json'')],
                  body = [Envelope \<lparr>rpcResp.JSONRPC = ''2.0'', ID = rpcReq.ID req, Result = None,
                            Error = Some \<lparr>Code = - 32000,
                              Message = ''server '' @ Quote L (toolRoute.ServerName route)
                                          @ '' not found''\<rparr>\<rparr>]\<rparr>, s)"
  proof
    assume z: "registry s (toolRoute.ServerName route) = None"
    then have c: "callTool L P s (toolRoute.ServerName route) (ToolName route) (Arguments params) =
                Inl (''server '' @ Quote L (toolRoute.ServerName route) @ '' not found'')"
      by (simp add: callTool_def)
    have nmp: "toolsCallParams.Name params = nm" using name by (simp only: nm_def)
    have "case_tools_call L P s req' sid =
            writeRPCError newResponse (rpcReq.ID req) (- 32000)
              (''server '' @ Quote L (toolRoute.ServerName route) @ '' not found'')"
      using ne r c nmp params q by (simp add: case_tools_call_def)
    with c h show "callTool L P s (toolRoute.ServerName route) (ToolName route) (Arguments params) =
                Inl (''server '' @ Quote L (toolRoute.ServerName route) @ '' not found'') \<and>
              handleMCPProxy L P s rq =
                (\<lparr>status = 200, header = [(''Content-Type'', ''application/json'')],
                  body = [Envelope \<lparr>rpcResp.JSONRPC = ''2.0'', ID = rpcReq.ID req, Result = None,
                            Error = Some \<lparr>Code = - 32000,
                              Message = ''server '' @ Quote L (toolRoute.ServerName route)
                                          @ '' not found''\<rparr>\<rparr>]\<rparr>, s)"
      by (simp add: writeRPCError_eq)
  qed
  show ?thesis
    by (rule exI[of _ route]) (intro conjI r[unfolded sid_def nm_def] a b)
qed


lemmas proxy_defs = handleMCPProxy_def case_tools_call_def callTool_def resolveToolRoute_def
  SplitN2_def noSession_def hasSession_def sessionError_def writeRPCError_def
  writeRawResult_def Write_def WriteHeader_def setHeader_def newResponse_def sentStatus_def
  sample_proxy_env_def sample_unmarshal_toolsCall_def proxy_empty_def proxy_a_def post_def
  session_id_def emptySession_def session_methods_def Let_def

theorem session_guard_witness:
  "httpMethod (post ''tools/list'' None []) = ''POST'' \<and>
   bodyDecode (post ''tools/list'' None []) =
     Inr \<lparr>rpcReq.JSONRPC = ''2.0'', ID = 7, Method = ''tools/list'', Params = None\<rparr> \<and>
   Method \<lparr>rpcReq.JSONRPC = ''2.0'', ID = 7, Method = ''tools/list'', Params = None\<rparr>
     \<in> set session_methods \<and>
   noSession proxy_empty (TrimSpace (sessionHeader (post ''tools/list'' None []))) \<and>
   handleMCPProxy sample_lib sample_proxy_env proxy_empty (post ''tools/list'' None []) =
     (\<lparr>status = 200, header = [(''Content-Type'', ''application/json'')],
       body = [Envelope \<lparr>rpcResp.JSONRPC = ''2.0'', ID = 7, Result = None,
                 Error = Some \<lparr>Code = - 32000,
                               Message = ''missing or invalid MCP session''\<rparr>\<rparr>]\<rparr>,
      proxy_empty)"
  using session_guard [of "post ''tools/list'' None []"
      "\<lparr>rpcReq.JSONRPC = ''2.0'', ID = 7, Method = ''tools/list'', Params = None\<rparr>"
      proxy_empty sample_lib sample_proxy_env]
  by (simp add: post_def session_methods_def noSession_def TrimSpace_def)

text \<open>
  The claim as written (HTTP status 400) fails for \<^verbatim>\<open>tools/list\<close> without a session
  header: the status is 200.
\<close>

theorem session_guard_counterexample:
  "sentStatus (fst (handleMCPProxy sample_lib sample_proxy_env proxy_empty
                      (post ''tools/list'' None []))) = 200 \<and>
   sentStatus (fst (handleMCPProxy sample_lib sample_proxy_env proxy_empty
                      (post ''tools/list'' None []))) \<noteq> 400 \<and>
   body (fst (handleMCPProxy sample_lib sample_proxy_env proxy_empty
                      (post ''tools/list'' None []))) =
     [Envelope \<lparr>rpcResp.JSONRPC = ''2.0'', ID = 7, Result = None,
                 Error = Some \<lparr>Code = - 32000,
                               Message = ''missing or invalid MCP session''\<rparr>\<rparr>]"
  by (simp add: proxy_defs TrimSpace_def)

theorem unknown_server_call_witness:
  "httpMethod (post ''tools/call'' (Some txt_params_ghost) session_id) = ''POST'' \<and>
   bodyDecode (post ''tools/call'' (Some txt_params_ghost) session_id) =
     Inr \<lparr>rpcReq.JSONRPC = ''2.0'', ID = 7, Method = ''tools/call'',
          Params = Some txt_params_ghost\<rparr> \<and>
   \<not> noSession proxy_empty
       (TrimSpace (sessionHeader (post ''tools/call'' (Some txt_params_ghost) session_id))) \<and>
   unmarshal_toolsCall sample_proxy_env (bytes_of (Some txt_params_ghost)) =
     Inr \<lparr>toolsCallParams.Name = ''ghost__do'', Arguments = None\<rparr> \<and>
   ''ghost__do'' = ''ghost'' @ ''__'' @ ''do'' \<and>
   Index ''ghost'' ''__'' = None \<and> last ''ghost'' \<noteq> CHR ''_'' \<and>
   registry proxy_empty ''ghost'' = None \<and>
   resolveToolRoute (mcpState proxy_empty) session_id ''ghost__do'' =
     Some \<lparr>toolRoute.ServerName = ''ghost'', ToolName = ''do''\<rparr> \<and>
   handleMCPProxy sample_lib sample_proxy_env proxy_empty
       (post ''tools/call'' (Some txt_params_ghost) session_id) =
     (\<lparr>status = 200, header = [(''Content-Type'', ''application/json'')],
       body = [Envelope \<lparr>rpcResp.JSONRPC = ''2.0'', ID = 7, Result = None,
                 Error = Some \<lparr>Code = - 32000,
                               Message = ''server '' @ [CHR 0x22] @ ''ghost'' @ [CHR 0x22]
                                           @ '' not found''\<rparr>\<rparr>]\<rparr>,
      proxy_empty)"
  using unknown_server_call [of "post ''tools/call'' (Some txt_params_ghost) session_id"
      "\<lparr>rpcReq.JSONRPC = ''2.0'', ID = 7, Method = ''tools/call'', Params = Some txt_params_ghost\<rparr>"
      proxy_empty sample_proxy_env "\<lparr>toolsCallParams.Name = ''ghost__do'', Arguments = None\<rparr>"
      "''ghost''" "''do''" sample_lib]
  by (simp add: proxy_defs sample_lib_defs text_defs)

text \<open>
  The claim as written (every \<open>s\<close>) fails for \<open>s = a__b\<close>, which names no configured
  server: the name \<open>a__b__c\<close> resolves to the server \<open>a\<close>. Where \<open>a\<close> is configured the
  call is forwarded to it and the client receives its result; where it is not, the
  message names \<open>a\<close>, not \<open>a__b\<close>.
\<close>

theorem unknown_server_call_counterexample:
  "registry proxy_a ''a__b'' = None \<and>
   (case mcpState proxy_a session_id of
      None \<Rightarrow> None
    | Some ss \<Rightarrow> mcpSession.Tools ss (''a__b'' @ ''__'' @ ''c'')) = None \<and>
   handleMCPProxy sample_lib sample_proxy_env proxy_a
       (post ''tools/call'' (Some txt_params_abc) session_id) =
     (\<lparr>status = 200,
       header = [(''Content-Type'', ''application/json''), (''MCP-Session-Id'', session_id)],
       body = [Envelope (resp_call\<lparr>rpcResp.ID := 7\<rparr>)]\<rparr>,
      proxy_a) \<and>
   registry proxy_empty ''a__b'' = None \<and>
   body (fst (handleMCPProxy sample_lib sample_proxy_env proxy_empty
       (post ''tools/call'' (Some txt_params_abc) session_id))) =
     [Envelope \<lparr>rpcResp.JSONRPC = ''2.0'', ID = 7, Result = None,
                 Error = Some \<lparr>Code = - 32000,
                               Message = ''server '' @ [CHR 0x22] @ ''a'' @ [CHR 0x22]
                                           @ '' not found''\<rparr>\<rparr>]"
  by (simp add: proxy_defs sample_lib_defs text_defs)

end
